theory Spec2Isabelle
  imports Main "HOL-Library.Multiset"
begin

section \<open>Run-time values and the data model\<close>

text \<open>
  An optional field of a request body (\<^verbatim>\<open>title?: string\<close>) holds, at run time, nothing
  (\<^verbatim>\<open>undefined\<close>), \<^verbatim>\<open>null\<close> or a string. The guards of the repository
  (\<^verbatim>\<open>data.title && ...\<close>, \<^verbatim>\<open>data.description !== undefined\<close>) tell these apart, so
  the model keeps all three.
\<close>

datatype jsval = Undefined | Null | Str string

text \<open>JavaScript truthiness of such a value: the empty string is falsy.\<close>

fun truthy :: "jsval \<Rightarrow> bool" where
  "truthy Undefined = False"
| "truthy Null = False"
| "truthy (Str s) = (s \<noteq> [])"

datatype TaskStatus = TODO | IN_PROGRESS | DONE | ARCHIVED

text \<open>The members of the enum are the strings of their names.\<close>

definition status_of_string :: "string \<Rightarrow> TaskStatus option" where
  "status_of_string s =
     (if s = ''TODO'' then Some TODO
      else if s = ''IN_PROGRESS'' then Some IN_PROGRESS
      else if s = ''DONE'' then Some DONE
      else if s = ''ARCHIVED'' then Some ARCHIVED
      else None)"

fun string_of_status :: "TaskStatus \<Rightarrow> string" where
  "string_of_status TODO = ''TODO''"
| "string_of_status IN_PROGRESS = ''IN_PROGRESS''"
| "string_of_status DONE = ''DONE''"
| "string_of_status ARCHIVED = ''ARCHIVED''"

text \<open>
  The rows of the two tables, column by column as the Prisma schema declares them (the
  schema is quoted in the repository's plan: \<^verbatim>\<open>description String?\<close>,
  \<^verbatim>\<open>status TaskStatus @default(TODO)\<close>, \<^verbatim>\<open>email String @unique\<close>, a foreign key from
  \<^verbatim>\<open>userId\<close> to the user). Timestamps are milliseconds since the epoch.
\<close>

record User =
  user_id :: string
  email :: string
  name :: string
  user_createdAt :: nat
  user_updatedAt :: nat

record Task =
  task_id :: string
  title :: string
  description :: "string option"
  status :: TaskStatus
  userId :: string
  createdAt :: nat
  updatedAt :: nat

record CreateTaskBody =
  cb_title :: string
  cb_description :: jsval
  cb_status :: jsval

record UpdateTaskBody =
  ub_title :: jsval
  ub_description :: jsval
  ub_status :: jsval

record CreateUserBody =
  cu_email :: string
  cu_name :: string

record TaskFilters =
  f_status :: jsval

section \<open>Errors\<close>

text \<open>What the ORM client throws: a rejected argument, a violated unique or foreign-key
  constraint, an update or delete whose row is not there, or a statement that the store
  did not carry out (a lost connection, a timeout).\<close>

datatype prisma_failure =
  InvalidArgument | UniqueConstraint | ForeignKeyConstraint | RecordNotFound
| StoreUnavailable

text \<open>
  An \<^verbatim>\<open>AppError\<close> carries a message, a status code and a code; the error handler tells it
  from a validation error of the framework and from any other error. Of any other error
  the handler reads the \<^verbatim>\<open>statusCode\<close> property, which an error of the framework or of
  one of its plugins may have and an error of the ORM client has not.
\<close>

datatype error =
  AppError string nat string
| FastifyValidation
| PrismaClientError prisma_failure
| OtherError "nat option"

text \<open>
  Modelled from the spec: the error classes of \<^verbatim>\<open>utils/errors.ts\<close>, a file that is not
  among the sources. The status codes and codes are those of the spec's taxonomy
  (401, 403, 404, 400, 409) and of the file's own test suite.
\<close>

definition NotFoundError :: "string \<Rightarrow> error" where
  "NotFoundError resource = AppError (resource @ '' not found'') 404 ''NOT_FOUND''"

definition UnauthorizedError :: "string \<Rightarrow> error" where
  "UnauthorizedError message = AppError message 401 ''UNAUTHORIZED''"

definition ForbiddenError :: "string \<Rightarrow> error" where
  "ForbiddenError message = AppError message 403 ''FORBIDDEN''"

definition ValidationError :: "string \<Rightarrow> error" where
  "ValidationError message = AppError message 400 ''VALIDATION_ERROR''"

definition ConflictError :: "string \<Rightarrow> error" where
  "ConflictError message = AppError message 409 ''CONFLICT''"

section \<open>The store\<close>

text \<open>
  The two tables, and the statements sent to the store so far. A table is the list of
  its rows; a statement with a \<^verbatim>\<open>where\<close> clause acts on the rows that match it.
\<close>

datatype statement =
  User_findUnique_id string
| User_findUnique_email string
| User_create
| Task_findUnique string
| Task_findMany
| Task_create
| Task_update string
| Task_delete string

record prisma =
  users :: "User list"
  tasks :: "Task list"
  queryLog :: "statement list"

definition sent :: "statement \<Rightarrow> prisma \<Rightarrow> prisma" where
  "sent q db = db\<lparr>queryLog := queryLog db @ [q]\<rparr>"

type_synonym 'a outcome = "(error + 'a) \<times> prisma"

subsection \<open>Users\<close>

definition prisma_user_findUnique_id :: "string \<Rightarrow> prisma \<Rightarrow> User option \<times> prisma" where
  "prisma_user_findUnique_id i db =
     (find (\<lambda>u. user_id u = i) (users db), sent (User_findUnique_id i) db)"

definition prisma_user_findUnique_email :: "string \<Rightarrow> prisma \<Rightarrow> User option \<times> prisma" where
  "prisma_user_findUnique_email e db =
     (find (\<lambda>u. email u = e) (users db), sent (User_findUnique_email e) db)"

text \<open>
  An insert draws the new row's identifier (\<^verbatim>\<open>@default(uuid())\<close>) and the current time
  from outside; both are arguments here. The identifier and the email are unique.
\<close>

definition prisma_user_create :: "nat \<Rightarrow> string \<Rightarrow> string \<Rightarrow> string \<Rightarrow> prisma \<Rightarrow> User outcome" where
  "prisma_user_create now newId e n db =
     (let db1 = sent User_create db in
      if list_ex (\<lambda>u. user_id u = newId \<or> email u = e) (users db)
      then (Inl (PrismaClientError UniqueConstraint), db1)
      else
        (let u = \<lparr>user_id = newId, email = e, name = n,
                   user_createdAt = now, user_updatedAt = now\<rparr>
         in (Inr u, db1\<lparr>users := users db @ [u]\<rparr>)))"

subsection \<open>Tasks\<close>

definition prisma_task_findUnique :: "string \<Rightarrow> prisma \<Rightarrow> Task option \<times> prisma" where
  "prisma_task_findUnique i db =
     (find (\<lambda>t. task_id t = i) (tasks db), sent (Task_findUnique i) db)"

text \<open>The \<^verbatim>\<open>where\<close> clause of the listing: the owner, and a status when one is given.\<close>

record TaskWhere =
  where_userId :: string
  where_status :: jsval

text \<open>\<^verbatim>\<open>orderBy: { createdAt: 'desc' }\<close>\<close>

definition orderBy_createdAt_desc :: "Task list \<Rightarrow> Task list" where
  "orderBy_createdAt_desc ts = rev (sort_key createdAt ts)"

definition prisma_task_findMany :: "TaskWhere \<Rightarrow> prisma \<Rightarrow> Task list outcome" where
  "prisma_task_findMany w db =
     (let db1 = sent Task_findMany db;
          owned = filter (\<lambda>t. userId t = where_userId w) (tasks db)
      in case where_status w of
           Undefined \<Rightarrow> (Inr (orderBy_createdAt_desc owned), db1)
         | Null \<Rightarrow> (Inl (PrismaClientError InvalidArgument), db1)
         | Str s \<Rightarrow>
             (case status_of_string s of
                None \<Rightarrow> (Inl (PrismaClientError InvalidArgument), db1)
              | Some st \<Rightarrow>
                  (Inr (orderBy_createdAt_desc (filter (\<lambda>t. status t = st) owned)), db1)))"

record TaskCreateInput =
  ci_title :: string
  ci_description :: jsval
  ci_status :: jsval
  ci_userId :: string

text \<open>A column left out or given as \<^verbatim>\<open>null\<close> is stored as NULL.\<close>

fun nullable :: "jsval \<Rightarrow> string option" where
  "nullable Undefined = None"
| "nullable Null = None"
| "nullable (Str s) = Some s"

text \<open>The status column: left out it takes the column default, \<^verbatim>\<open>null\<close> and a string
  that is no member of the enum are rejected.\<close>

fun status_column :: "jsval \<Rightarrow> TaskStatus option" where
  "status_column Undefined = Some TODO"
| "status_column Null = None"
| "status_column (Str s) = status_of_string s"

definition prisma_task_create :: "nat \<Rightarrow> string \<Rightarrow> TaskCreateInput \<Rightarrow> prisma \<Rightarrow> Task outcome" where
  "prisma_task_create now newId d db =
     (let db1 = sent Task_create db in
      case status_column (ci_status d) of
        None \<Rightarrow> (Inl (PrismaClientError InvalidArgument), db1)
      | Some st \<Rightarrow>
          if list_ex (\<lambda>t. task_id t = newId) (tasks db)
          then (Inl (PrismaClientError UniqueConstraint), db1)
          else if \<not> list_ex (\<lambda>u. user_id u = ci_userId d) (users db)
          then (Inl (PrismaClientError ForeignKeyConstraint), db1)
          else
            (let t = \<lparr>task_id = newId, title = ci_title d,
                       description = nullable (ci_description d), status = st,
                       userId = ci_userId d, createdAt = now, updatedAt = now\<rparr>
             in (Inr t, db1\<lparr>tasks := tasks db @ [t]\<rparr>)))"

record TaskUpdateInput =
  ui_title :: jsval
  ui_description :: jsval
  ui_status :: jsval

text \<open>
  The arguments of an update are checked before anything is sent: the title is not
  nullable, and the status is a member of the enum. A column given as \<^verbatim>\<open>undefined\<close>
  is left as it is.
\<close>

fun valid_status :: "jsval \<Rightarrow> bool" where
  "valid_status Undefined = True"
| "valid_status Null = False"
| "valid_status (Str s) = (status_of_string s \<noteq> None)"

definition valid_update :: "TaskUpdateInput \<Rightarrow> bool" where
  "valid_update d = (ui_title d \<noteq> Null \<and> valid_status (ui_status d))"

fun set_title :: "jsval \<Rightarrow> string \<Rightarrow> string" where
  "set_title (Str s) old = s"
| "set_title _ old = old"

fun set_description :: "jsval \<Rightarrow> string option \<Rightarrow> string option" where
  "set_description Undefined old = old"
| "set_description Null old = None"
| "set_description (Str s) old = Some s"

fun set_status :: "jsval \<Rightarrow> TaskStatus \<Rightarrow> TaskStatus" where
  "set_status (Str s) old = (case status_of_string s of Some st \<Rightarrow> st | None \<Rightarrow> old)"
| "set_status _ old = old"

text \<open>The row as written by a valid update; \<^verbatim>\<open>@updatedAt\<close> stamps it.\<close>

definition write_row :: "nat \<Rightarrow> TaskUpdateInput \<Rightarrow> Task \<Rightarrow> Task" where
  "write_row now d t =
     t\<lparr>title := set_title (ui_title d) (title t),
       description := set_description (ui_description d) (description t),
       status := set_status (ui_status d) (status t),
       updatedAt := now\<rparr>"

text \<open>\<^verbatim>\<open>update({ where: { id }, data })\<close> returns the updated row, and throws when no
  row has the identifier.\<close>

definition prisma_task_update :: "nat \<Rightarrow> string \<Rightarrow> TaskUpdateInput \<Rightarrow> prisma \<Rightarrow> Task outcome" where
  "prisma_task_update now i d db =
     (let db1 = sent (Task_update i) db in
      if \<not> valid_update d then (Inl (PrismaClientError InvalidArgument), db1)
      else
        case find (\<lambda>t. task_id t = i) (tasks db) of
          None \<Rightarrow> (Inl (PrismaClientError RecordNotFound), db1)
        | Some t \<Rightarrow>
            (Inr (write_row now d t),
             db1\<lparr>tasks := map (\<lambda>r. if task_id r = i then write_row now d r else r) (tasks db)\<rparr>))"

text \<open>\<^verbatim>\<open>delete({ where: { id } })\<close> returns the deleted row.\<close>

definition prisma_task_delete :: "string \<Rightarrow> prisma \<Rightarrow> Task outcome" where
  "prisma_task_delete i db =
     (let db1 = sent (Task_delete i) db in
      case find (\<lambda>t. task_id t = i) (tasks db) of
        None \<Rightarrow> (Inl (PrismaClientError RecordNotFound), db1)
      | Some t \<Rightarrow> (Inr t, db1\<lparr>tasks := filter (\<lambda>r. task_id r \<noteq> i) (tasks db)\<rparr>))"

section \<open>Repositories\<close>

definition TaskRepository_findById :: "string \<Rightarrow> prisma \<Rightarrow> Task option \<times> prisma" where
  "TaskRepository_findById i db = prisma_task_findUnique i db"

text \<open>\<^verbatim>\<open>...(filters?.status && { status: filters.status })\<close>: the condition is spread
  into the clause only when it is truthy.\<close>

definition TaskRepository_findByUserId ::
  "string \<Rightarrow> TaskFilters option \<Rightarrow> prisma \<Rightarrow> Task list outcome" where
  "TaskRepository_findByUserId uid filters db =
     (let st = (case filters of None \<Rightarrow> Undefined | Some f \<Rightarrow> f_status f) in
      prisma_task_findMany
        \<lparr>where_userId = uid, where_status = (if truthy st then st else Undefined)\<rparr> db)"

definition TaskRepository_create ::
  "nat \<Rightarrow> string \<Rightarrow> string \<Rightarrow> CreateTaskBody \<Rightarrow> prisma \<Rightarrow> Task outcome" where
  "TaskRepository_create now newId uid data db =
     prisma_task_create now newId
       \<lparr>ci_title = cb_title data,
        ci_description = cb_description data,
        ci_status = (if truthy (cb_status data) then cb_status data
                     else Str (string_of_status TODO)),
        ci_userId = uid\<rparr> db"

text \<open>
  The \<^verbatim>\<open>data\<close> object of \<^verbatim>\<open>update\<close>: the title and the status are spread into it when
  they are truthy, the description when it is not \<^verbatim>\<open>undefined\<close>.
\<close>

definition update_data :: "UpdateTaskBody \<Rightarrow> TaskUpdateInput" where
  "update_data data =
     \<lparr>ui_title = (if truthy (ub_title data) then ub_title data else Undefined),
      ui_description = (if ub_description data \<noteq> Undefined then ub_description data
                        else Undefined),
      ui_status = (if truthy (ub_status data) then ub_status data else Undefined)\<rparr>"

definition TaskRepository_update ::
  "nat \<Rightarrow> string \<Rightarrow> UpdateTaskBody \<Rightarrow> prisma \<Rightarrow> Task outcome" where
  "TaskRepository_update now i data db = prisma_task_update now i (update_data data) db"

definition TaskRepository_delete :: "string \<Rightarrow> prisma \<Rightarrow> Task outcome" where
  "TaskRepository_delete i db = prisma_task_delete i db"

definition TaskRepository_archive :: "nat \<Rightarrow> string \<Rightarrow> prisma \<Rightarrow> Task outcome" where
  "TaskRepository_archive now i db =
     prisma_task_update now i
       \<lparr>ui_title = Undefined, ui_description = Undefined,
        ui_status = Str (string_of_status ARCHIVED)\<rparr> db"

definition UserRepository_findById :: "string \<Rightarrow> prisma \<Rightarrow> User option \<times> prisma" where
  "UserRepository_findById i db = prisma_user_findUnique_id i db"

definition UserRepository_findByEmail :: "string \<Rightarrow> prisma \<Rightarrow> User option \<times> prisma" where
  "UserRepository_findByEmail e db = prisma_user_findUnique_email e db"

definition UserRepository_create ::
  "nat \<Rightarrow> string \<Rightarrow> CreateUserBody \<Rightarrow> prisma \<Rightarrow> User outcome" where
  "UserRepository_create now newId data db =
     prisma_user_create now newId (cu_email data) (cu_name data) db"

section \<open>Services\<close>

definition getTasks :: "string \<Rightarrow> TaskFilters option \<Rightarrow> prisma \<Rightarrow> Task list outcome" where
  "getTasks uid filters db = TaskRepository_findByUserId uid filters db"

definition getTaskById :: "string \<Rightarrow> string \<Rightarrow> prisma \<Rightarrow> Task outcome" where
  "getTaskById taskId uid db =
     (case TaskRepository_findById taskId db of
        (None, db1) \<Rightarrow> (Inl (NotFoundError ''Task''), db1)
      | (Some task, db1) \<Rightarrow>
          if userId task \<noteq> uid
          then (Inl (ForbiddenError ''You do not have access to this task''), db1)
          else (Inr task, db1))"

definition createTask ::
  "nat \<Rightarrow> string \<Rightarrow> string \<Rightarrow> CreateTaskBody \<Rightarrow> prisma \<Rightarrow> Task outcome" where
  "createTask now newId uid data db = TaskRepository_create now newId uid data db"

definition updateTask ::
  "nat \<Rightarrow> string \<Rightarrow> string \<Rightarrow> UpdateTaskBody \<Rightarrow> prisma \<Rightarrow> Task outcome" where
  "updateTask now taskId uid data db =
     (case TaskRepository_findById taskId db of
        (None, db1) \<Rightarrow> (Inl (NotFoundError ''Task''), db1)
      | (Some task, db1) \<Rightarrow>
          if userId task \<noteq> uid
          then (Inl (ForbiddenError ''You do not have access to this task''), db1)
          else TaskRepository_update now taskId data db1)"

definition deleteTask :: "string \<Rightarrow> string \<Rightarrow> prisma \<Rightarrow> unit outcome" where
  "deleteTask taskId uid db =
     (case TaskRepository_findById taskId db of
        (None, db1) \<Rightarrow> (Inl (NotFoundError ''Task''), db1)
      | (Some task, db1) \<Rightarrow>
          if userId task \<noteq> uid
          then (Inl (ForbiddenError ''You do not have access to this task''), db1)
          else
            (case TaskRepository_delete taskId db1 of
               (Inl e, db2) \<Rightarrow> (Inl e, db2)
             | (Inr _, db2) \<Rightarrow> (Inr (), db2)))"

definition archiveTask :: "nat \<Rightarrow> string \<Rightarrow> string \<Rightarrow> prisma \<Rightarrow> Task outcome" where
  "archiveTask now taskId uid db =
     (case TaskRepository_findById taskId db of
        (None, db1) \<Rightarrow> (Inl (NotFoundError ''Task''), db1)
      | (Some task, db1) \<Rightarrow>
          if userId task \<noteq> uid
          then (Inl (ForbiddenError ''You do not have access to this task''), db1)
          else TaskRepository_archive now taskId db1)"

definition getUserById :: "string \<Rightarrow> prisma \<Rightarrow> User outcome" where
  "getUserById uid db =
     (case UserRepository_findById uid db of
        (None, db1) \<Rightarrow> (Inl (NotFoundError ''User''), db1)
      | (Some user, db1) \<Rightarrow> (Inr user, db1))"

definition createUser :: "nat \<Rightarrow> string \<Rightarrow> CreateUserBody \<Rightarrow> prisma \<Rightarrow> User outcome" where
  "createUser now newId data db =
     (case UserRepository_findByEmail (cu_email data) db of
        (Some existingUser, db1) \<Rightarrow> (Inl (ConflictError ''Email already in use''), db1)
      | (None, db1) \<Rightarrow> UserRepository_create now newId data db1)"

section \<open>Authorization middleware\<close>

text \<open>
  What the middleware and the routes read of a request: the headers, the query string,
  the path parameters, and the \<^verbatim>\<open>userId\<close> field an authenticated request carries.
\<close>

record request =
  headers :: "string \<rightharpoonup> string"
  query :: "string \<rightharpoonup> string"
  params :: "string \<rightharpoonup> string"
  req_userId :: "string option"

definition hex_lower :: "char \<Rightarrow> bool" where
  "hex_lower c = (c \<in> set ''0123456789abcdef'')"

text \<open>\<^verbatim>\<open>[0-9a-f]\<close> under the flag \<^verbatim>\<open>i\<close>\<close>

definition hex_any :: "char \<Rightarrow> bool" where
  "hex_any c = (c \<in> set ''0123456789abcdefABCDEF'')"

text \<open>A string of groups of digits of the given lengths, with a hyphen between two
  groups, and nothing before or after.\<close>

fun hyphenated :: "(char \<Rightarrow> bool) \<Rightarrow> nat list \<Rightarrow> string \<Rightarrow> bool" where
  "hyphenated digit [] s = (s = [])"
| "hyphenated digit [n] s = (length s = n \<and> list_all digit s)"
| "hyphenated digit (n # ns) s =
     (n < length s \<and> list_all digit (take n s) \<and> s ! n = CHR ''-''
      \<and> hyphenated digit ns (drop (Suc n) s))"

text \<open>\<^verbatim>\<open>/^[0-9a-f]{8}-[0-9a-f]{4}-[0-9a-f]{4}-[0-9a-f]{4}-[0-9a-f]{12}$/i\<close>\<close>

definition UUID_REGEX_test :: "string \<Rightarrow> bool" where
  "UUID_REGEX_test s = hyphenated hex_any [8, 4, 4, 4, 12] s"

text \<open>\<^verbatim>\<open>!userId\<close> for a value that is a string or \<^verbatim>\<open>undefined\<close>\<close>

fun missing :: "string option \<Rightarrow> bool" where
  "missing None = True"
| "missing (Some s) = (s = [])"

definition authMiddleware :: "request \<Rightarrow> prisma \<Rightarrow> request outcome" where
  "authMiddleware request db =
     (let fromHeader = headers request ''x-user-id'';
          userId = (if missing fromHeader then query request ''userId'' else fromHeader)
      in case userId of
           None \<Rightarrow>
             (Inl (UnauthorizedError
                ''Missing user identifier. Provide x-user-id header or userId query parameter.''),
              db)
         | Some uid \<Rightarrow>
             if uid = [] then
               (Inl (UnauthorizedError
                  ''Missing user identifier. Provide x-user-id header or userId query parameter.''),
                db)
             else if \<not> UUID_REGEX_test uid then
               (Inl (UnauthorizedError ''Invalid user identifier format.''), db)
             else
               (case prisma_user_findUnique_id uid db of
                  (None, db1) \<Rightarrow> (Inl (UnauthorizedError ''User not found.''), db1)
                | (Some user, db1) \<Rightarrow> (Inr (request\<lparr>req_userId := Some uid\<rparr>), db1)))"

section \<open>Error handler and the archive route\<close>

text \<open>The envelope of a response; of a failure the model keeps the code, not the
  message or the stack trace.\<close>

datatype 'a envelope = success 'a | failure string

record 'a reply =
  reply_status :: nat
  reply_body :: "'a envelope"

text \<open>The \<^verbatim>\<open>statusCode\<close> property of an error that is no \<^verbatim>\<open>AppError\<close> and no
  validation error, and \<^verbatim>\<open>error.statusCode || 500\<close>.\<close>

fun statusCode_of :: "error \<Rightarrow> nat option" where
  "statusCode_of (AppError message statusCode code) = Some statusCode"
| "statusCode_of FastifyValidation = Some 400"
| "statusCode_of (PrismaClientError f) = None"
| "statusCode_of (OtherError statusCode) = statusCode"

fun or_500 :: "nat option \<Rightarrow> nat" where
  "or_500 None = 500"
| "or_500 (Some n) = (if n = 0 then 500 else n)"

fun errorHandler :: "error \<Rightarrow> 'a reply" where
  "errorHandler (AppError message statusCode code) =
     \<lparr>reply_status = statusCode, reply_body = failure code\<rparr>"
| "errorHandler FastifyValidation =
     \<lparr>reply_status = 400, reply_body = failure ''VALIDATION_ERROR''\<rparr>"
| "errorHandler error =
     \<lparr>reply_status = or_500 (statusCode_of error), reply_body = failure ''INTERNAL_ERROR''\<rparr>"

text \<open>\<^verbatim>\<open>archiveTaskSchema\<close>: the parameter \<^verbatim>\<open>id\<close> is required and matches
  \<^verbatim>\<open>^[0-9a-f]{8}-[0-9a-f]{4}-[0-9a-f]{4}-[0-9a-f]{4}-[0-9a-f]{12}$\<close>.\<close>

definition archiveTaskSchema :: "request \<Rightarrow> bool" where
  "archiveTaskSchema request =
     (case params request ''id'' of
        None \<Rightarrow> False
      | Some i \<Rightarrow> hyphenated hex_lower [8, 4, 4, 4, 12] i)"

subsection \<open>What a request meets\<close>

text \<open>
  A request is served while others are, by a store that may fail. What it meets is: the
  number of requests the rate limiter has counted for its client in the running window,
  this one included; for each statement, whether the store client throws on it; and the
  writes of other requests that reach the store before the statement does. The services
  above are the services in the case where no statement throws and no other request
  writes; in the route every \<^verbatim>\<open>await\<close> of a statement is written out.
\<close>

record environment =
  hits :: nat
  throws :: "statement \<Rightarrow> bool"
  meanwhile :: "statement \<Rightarrow> prisma \<Rightarrow> prisma"

text \<open>Awaiting a statement: the store has moved on, and the statement runs or throws.\<close>

definition awaited ::
  "environment \<Rightarrow> statement \<Rightarrow> (prisma \<Rightarrow> 'a outcome) \<Rightarrow> prisma \<Rightarrow> 'a outcome" where
  "awaited env q run db =
     (let db0 = meanwhile env q db in
      if throws env q then (Inl (PrismaClientError StoreUnavailable), sent q db0)
      else run db0)"

definition returned :: "(prisma \<Rightarrow> 'a \<times> prisma) \<Rightarrow> prisma \<Rightarrow> 'a outcome" where
  "returned run db = (case run db of (r, db1) \<Rightarrow> (Inr r, db1))"

text \<open>The middleware and \<^verbatim>\<open>archiveTask\<close> again, statement by statement; an error of the
  store client is not caught and leaves the function.\<close>

definition authMiddleware_under :: "environment \<Rightarrow> request \<Rightarrow> prisma \<Rightarrow> request outcome" where
  "authMiddleware_under env request db =
     (let fromHeader = headers request ''x-user-id'';
          userId = (if missing fromHeader then query request ''userId'' else fromHeader)
      in case userId of
           None \<Rightarrow>
             (Inl (UnauthorizedError
                ''Missing user identifier. Provide x-user-id header or userId query parameter.''),
              db)
         | Some uid \<Rightarrow>
             if uid = [] then
               (Inl (UnauthorizedError
                  ''Missing user identifier. Provide x-user-id header or userId query parameter.''),
                db)
             else if \<not> UUID_REGEX_test uid then
               (Inl (UnauthorizedError ''Invalid user identifier format.''), db)
             else
               (case awaited env (User_findUnique_id uid)
                       (returned (prisma_user_findUnique_id uid)) db of
                  (Inl e, db1) \<Rightarrow> (Inl e, db1)
                | (Inr None, db1) \<Rightarrow> (Inl (UnauthorizedError ''User not found.''), db1)
                | (Inr (Some user), db1) \<Rightarrow> (Inr (request\<lparr>req_userId := Some uid\<rparr>), db1)))"

definition archiveTask_under ::
  "environment \<Rightarrow> nat \<Rightarrow> string \<Rightarrow> string \<Rightarrow> prisma \<Rightarrow> Task outcome" where
  "archiveTask_under env now taskId uid db =
     (case awaited env (Task_findUnique taskId)
             (returned (TaskRepository_findById taskId)) db of
        (Inl e, db1) \<Rightarrow> (Inl e, db1)
      | (Inr None, db1) \<Rightarrow> (Inl (NotFoundError ''Task''), db1)
      | (Inr (Some task), db1) \<Rightarrow>
          if userId task \<noteq> uid
          then (Inl (ForbiddenError ''You do not have access to this task''), db1)
          else awaited env (Task_update taskId) (TaskRepository_archive now taskId) db1)"

text \<open>
  The server registers the rate limiter with \<^verbatim>\<open>max: 100\<close> for a window of a minute
  (the application built for the tests, with 1000). Past the maximum the limiter throws
  an error whose \<^verbatim>\<open>statusCode\<close> is 429.
\<close>

definition rateLimit_max :: nat where
  "rateLimit_max = 100"

definition rateLimit :: "environment \<Rightarrow> error option" where
  "rateLimit env = (if hits env \<le> rateLimit_max then None else Some (OtherError (Some 429)))"

text \<open>
  \<^verbatim>\<open>POST /:id/archive\<close>. The rate limiter runs when the request arrives; then the
  framework validates the request against the schema, runs the pre-handler, and then the
  handler. An error thrown by any of them goes to the error handler.
\<close>

definition archive_route ::
  "environment \<Rightarrow> nat \<Rightarrow> request \<Rightarrow> prisma \<Rightarrow> Task reply \<times> prisma" where
  "archive_route env now request db =
     (case rateLimit env of
        Some e \<Rightarrow> (errorHandler e, db)
      | None \<Rightarrow>
          if \<not> archiveTaskSchema request then (errorHandler FastifyValidation, db)
          else
            case authMiddleware_under env request db of
              (Inl e, db1) \<Rightarrow> (errorHandler e, db1)
            | (Inr request1, db1) \<Rightarrow>
                (case (params request1 ''id'', req_userId request1) of
                   (Some i, Some uid) \<Rightarrow>
                     (case archiveTask_under env now i uid db1 of
                        (Inl e, db2) \<Rightarrow> (errorHandler e, db2)
                      | (Inr task, db2) \<Rightarrow>
                          (\<lparr>reply_status = 200, reply_body = success task\<rparr>, db2))
                 | _ \<Rightarrow> (errorHandler (PrismaClientError InvalidArgument), db1)))"

section \<open>A small store\<close>

text \<open>Two of the seeded users and three of their tasks.\<close>

definition alice :: User where
  "alice = \<lparr>user_id = ''11111111-1111-4111-8111-111111111111'',
            email = ''alice@example.com'', name = ''Alice Johnson'',
            user_createdAt = 1000, user_updatedAt = 1000\<rparr>"

definition bob :: User where
  "bob = \<lparr>user_id = ''22222222-2222-4222-8222-222222222222'',
          email = ''bob@example.com'', name = ''Bob Smith'',
          user_createdAt = 1001, user_updatedAt = 1001\<rparr>"

definition task_a1 :: Task where
  "task_a1 = \<lparr>task_id = ''aaaaaaaa-0000-4000-8000-000000000001'',
              title = ''Write unit tests'',
              description = Some ''Add test coverage for the service layer'',
              status = TODO, userId = user_id alice,
              createdAt = 2000, updatedAt = 2000\<rparr>"

definition task_a2 :: Task where
  "task_a2 = \<lparr>task_id = ''aaaaaaaa-0000-4000-8000-000000000002'',
              title = ''Old project cleanup'',
              description = None,
              status = ARCHIVED, userId = user_id alice,
              createdAt = 2001, updatedAt = 2001\<rparr>"

definition task_b1 :: Task where
  "task_b1 = \<lparr>task_id = ''bbbbbbbb-0000-4000-8000-000000000001'',
              title = ''Database migration'',
              description = Some ''Update schema and run migrations'',
              status = TODO, userId = user_id bob,
              createdAt = 2002, updatedAt = 2002\<rparr>"

definition seeded :: prisma where
  "seeded = \<lparr>users = [alice, bob], tasks = [task_a1, task_a2, task_b1], queryLog = []\<rparr>"

text \<open>Requests to \<^verbatim>\<open>POST /:id/archive\<close>: Alice archiving her own task; the same with her
  identifier in the query string and an empty header; Bob archiving Alice's task; Alice
  with a path parameter that is no identifier; and a request without credential.\<close>

definition alice_archives_own :: request where
  "alice_archives_own =
     \<lparr>headers = [''x-user-id'' \<mapsto> user_id alice], query = Map.empty,
      params = [''id'' \<mapsto> task_id task_a1], req_userId = None\<rparr>"

definition alice_by_query_empty_header :: request where
  "alice_by_query_empty_header =
     \<lparr>headers = [''x-user-id'' \<mapsto> []], query = [''userId'' \<mapsto> user_id alice],
      params = [''id'' \<mapsto> task_id task_a1], req_userId = None\<rparr>"

definition bob_archives_alices :: request where
  "bob_archives_alices =
     \<lparr>headers = [''x-user-id'' \<mapsto> user_id bob], query = Map.empty,
      params = [''id'' \<mapsto> task_id task_a1], req_userId = None\<rparr>"

definition alice_archives_bad_id :: request where
  "alice_archives_bad_id =
     \<lparr>headers = [''x-user-id'' \<mapsto> user_id alice], query = Map.empty,
      params = [''id'' \<mapsto> ''invalid-uuid''], req_userId = None\<rparr>"

definition anonymous_archives :: request where
  "anonymous_archives =
     \<lparr>headers = Map.empty, query = Map.empty,
      params = [''id'' \<mapsto> task_id task_a1], req_userId = None\<rparr>"

text \<open>What a request may meet: nothing; a client past its hundred requests; a store that
  is down; and another request that deletes a task just before its row is updated.\<close>

definition calm :: environment where
  "calm = \<lparr>hits = 1, throws = (\<lambda>q. False), meanwhile = (\<lambda>q. id)\<rparr>"

definition flooded :: environment where
  "flooded = \<lparr>hits = 101, throws = (\<lambda>q. False), meanwhile = (\<lambda>q. id)\<rparr>"

definition store_down :: environment where
  "store_down = \<lparr>hits = 1, throws = (\<lambda>q. True), meanwhile = (\<lambda>q. id)\<rparr>"

definition deleted_meanwhile :: environment where
  "deleted_meanwhile =
     \<lparr>hits = 1, throws = (\<lambda>q. False),
      meanwhile = (\<lambda>q db. case q of
                              Task_update i \<Rightarrow> db\<lparr>tasks := filter (\<lambda>r. task_id r \<noteq> i) (tasks db)\<rparr>
                            | _ \<Rightarrow> db)\<rparr>"

section \<open>Basic facts about the store\<close>

lemma sent_simps [simp]:
  "tasks (sent q db) = tasks db"
  "users (sent q db) = users db"
  "queryLog (sent q db) = queryLog db @ [q]"
  by (simp_all add: sent_def)

lemma find_None_iff_id:
  "find (\<lambda>t. task_id t = i) ts = None \<longleftrightarrow> i \<notin> task_id ` set ts"
  by (auto simp: find_None_iff)

lemma findById_result:
  "TaskRepository_findById i db =
     (find (\<lambda>t. task_id t = i) (tasks db), sent (Task_findUnique i) db)"
  by (simp add: TaskRepository_findById_def prisma_task_findUnique_def)

lemma NotFound_not_Forbidden: "NotFoundError r \<noteq> ForbiddenError m"
  by (simp add: NotFoundError_def ForbiddenError_def)

lemma seeded_simps:
  "tasks seeded = [task_a1, task_a2, task_b1]"
  "users seeded = [alice, bob]"
  "queryLog seeded = []"
  by (simp_all add: seeded_def)

lemmas seeded_rows = seeded_simps task_a1_def task_a2_def task_b1_def alice_def bob_def

subsection \<open>Updates\<close>

lemma write_row_simps [simp]:
  "task_id (write_row now d t) = task_id t"
  "userId (write_row now d t) = userId t"
  "createdAt (write_row now d t) = createdAt t"
  "updatedAt (write_row now d t) = now"
  "title (write_row now d t) = set_title (ui_title d) (title t)"
  "description (write_row now d t) = set_description (ui_description d) (description t)"
  "status (write_row now d t) = set_status (ui_status d) (status t)"
  by (simp_all add: write_row_def)

lemma find_rewritten:
  assumes "find (\<lambda>t. task_id t = i) ts = Some t" and "\<And>r. task_id (f r) = task_id r"
  shows "find (\<lambda>t. task_id t = i) (map (\<lambda>r. if task_id r = i then f r else r) ts) = Some (f t)"
  using assms by (induction ts) (auto split: if_splits)

lemma others_untouched:
  "filter (\<lambda>r. task_id r \<noteq> i) (map (\<lambda>r. if task_id r = i then f r else r) ts)
     = filter (\<lambda>r. task_id r \<noteq> i) ts" if "\<And>r. task_id (f r) = task_id r"
  using that by (induction ts) auto

lemma prisma_task_update_found:
  assumes "valid_update d" and "find (\<lambda>t. task_id t = i) (tasks db) = Some t"
  shows "prisma_task_update now i d db =
           (Inr (write_row now d t),
            (sent (Task_update i) db)
              \<lparr>tasks := map (\<lambda>r. if task_id r = i then write_row now d r else r) (tasks db)\<rparr>)"
  using assms by (simp add: prisma_task_update_def Let_def)

lemma status_of_string_simps [simp]:
  "status_of_string ''TODO'' = Some TODO"
  "status_of_string ''IN_PROGRESS'' = Some IN_PROGRESS"
  "status_of_string ''DONE'' = Some DONE"
  "status_of_string ''ARCHIVED'' = Some ARCHIVED"
  "status_of_string [] = None"
  by (simp_all add: status_of_string_def)

lemma status_of_string_of_status: "status_of_string (string_of_status st) = Some st"
  by (cases st) simp_all

lemma archiveTask_owned:
  assumes "find (\<lambda>t. task_id t = taskId) (tasks db) = Some task" and "userId task = uid"
  shows "archiveTask now taskId uid db =
     (Inr (task\<lparr>status := ARCHIVED, updatedAt := now\<rparr>),
      (sent (Task_update taskId) (sent (Task_findUnique taskId) db))
        \<lparr>tasks := map (\<lambda>r. if task_id r = taskId then r\<lparr>status := ARCHIVED, updatedAt := now\<rparr> else r)
                    (tasks db)\<rparr>)"
  using assms 
  by (simp add: archiveTask_def findById_result TaskRepository_archive_def
      prisma_task_update_found [where t = task] valid_update_def write_row_def)

lemma update_data_valid:
  "truthy (ub_status data) \<longrightarrow> valid_status (ub_status data) \<Longrightarrow> valid_update (update_data data)"
  by (cases "ub_title data") (auto simp: valid_update_def update_data_def)

lemma TaskRepository_update_found:
  assumes "find (\<lambda>t. task_id t = i) (tasks db) = Some task"
    and "truthy (ub_status data) \<longrightarrow> valid_status (ub_status data)"
  shows "TaskRepository_update now i data db =
           (Inr (write_row now (update_data data) task),
            (sent (Task_update i) db)
              \<lparr>tasks := map (\<lambda>r. if task_id r = i then write_row now (update_data data) r else r)
                          (tasks db)\<rparr>)"
  using assms
  by (simp add: TaskRepository_update_def prisma_task_update_found update_data_valid)

lemma updateTask_owned:
  assumes "find (\<lambda>t. task_id t = taskId) (tasks db) = Some task" and "userId task = uid"
    and "truthy (ub_status data) \<longrightarrow> valid_status (ub_status data)"
  shows "updateTask now taskId uid data db =
           (Inr (write_row now (update_data data) task),
            (sent (Task_update taskId) (sent (Task_findUnique taskId) db))
              \<lparr>tasks := map (\<lambda>r. if task_id r = taskId then write_row now (update_data data) r
                                  else r) (tasks db)\<rparr>)"
  using assms
  by (simp add: updateTask_def findById_result TaskRepository_update_found [where task = task])

lemma update_data_simps [simp]:
  "ui_title (update_data data) = (if truthy (ub_title data) then ub_title data else Undefined)"
  "ui_description (update_data data) = ub_description data"
  "ui_status (update_data data) = (if truthy (ub_status data) then ub_status data else Undefined)"
  by (simp_all add: update_data_def)

section \<open>Existence before ownership\<close>

text \<open>
  Claim C1. Each of \<open>getTaskById\<close>, \<open>updateTask\<close>, \<open>deleteTask\<close> and \<open>archiveTask\<close>
  fails with NotFound when no task has the given identifier, whoever the caller is, and
  so never with Forbidden there; it fails with Forbidden when the task exists and its
  owner is not the caller.
\<close>

theorem task_operations_check_existence_then_ownership:
  "(taskId \<notin> task_id ` set (tasks db) \<longrightarrow>
      fst (getTaskById taskId uid db) = Inl (NotFoundError ''Task'')
    \<and> fst (updateTask now taskId uid data db) = Inl (NotFoundError ''Task'')
    \<and> fst (deleteTask taskId uid db) = Inl (NotFoundError ''Task'')
    \<and> fst (archiveTask now taskId uid db) = Inl (NotFoundError ''Task'')
    \<and> NotFoundError ''Task'' \<noteq> ForbiddenError ''You do not have access to this task'')
 \<and> (\<forall>task. find (\<lambda>t. task_id t = taskId) (tasks db) = Some task \<and> userId task \<noteq> uid \<longrightarrow>
      fst (getTaskById taskId uid db)
        = Inl (ForbiddenError ''You do not have access to this task'')
    \<and> fst (updateTask now taskId uid data db)
        = Inl (ForbiddenError ''You do not have access to this task'')
    \<and> fst (deleteTask taskId uid db)
        = Inl (ForbiddenError ''You do not have access to this task'')
    \<and> fst (archiveTask now taskId uid db)
        = Inl (ForbiddenError ''You do not have access to this task''))"
  by (simp add: getTaskById_def updateTask_def deleteTask_def archiveTask_def findById_result
      find_None_iff_id [symmetric] NotFound_not_Forbidden)

theorem task_operations_check_existence_then_ownership_witness:
  "fst (getTaskById ''00000000-0000-0000-0000-000000000000'' (user_id bob) seeded)
     = Inl (NotFoundError ''Task'')
   \<and> fst (deleteTask ''00000000-0000-0000-0000-000000000000'' (user_id bob) seeded)
     = Inl (NotFoundError ''Task'')
   \<and> fst (archiveTask 3000 (task_id task_a1) (user_id bob) seeded)
     = Inl (ForbiddenError ''You do not have access to this task'')
   \<and> fst (updateTask 3000 (task_id task_a1) (user_id bob)
            \<lparr>ub_title = Str ''Mine now'', ub_description = Undefined, ub_status = Undefined\<rparr>
            seeded)
     = Inl (ForbiddenError ''You do not have access to this task'')"
  using task_operations_check_existence_then_ownership
    [of "''00000000-0000-0000-0000-000000000000''" seeded "user_id bob"]
    task_operations_check_existence_then_ownership
    [of "task_id task_a1" seeded "user_id bob" 3000
        "\<lparr>ub_title = Str ''Mine now'', ub_description = Undefined, ub_status = Undefined\<rparr>"]
  by (simp add: seeded_simps task_a1_def task_a2_def task_b1_def alice_def bob_def)

section \<open>Archiving\<close>

text \<open>
  Claim C3. For an existing task owned by the caller, \<open>archiveTask\<close> succeeds whatever
  the task's status is, \<open>ARCHIVED\<close> included; the task it returns and the stored task
  have status \<open>ARCHIVED\<close>.
\<close>

theorem archiveTask_sets_ARCHIVED:
  assumes "find (\<lambda>t. task_id t = taskId) (tasks db) = Some task" and "userId task = uid"
  shows "\<exists>task'. fst (archiveTask now taskId uid db) = Inr task'
           \<and> status task' = ARCHIVED
           \<and> find (\<lambda>t. task_id t = taskId) (tasks (snd (archiveTask now taskId uid db))) = Some task'"
  using assms 
  by (simp add: archiveTask_owned [where task = task] find_rewritten [where t = task])

theorem archiveTask_sets_ARCHIVED_witness:
  "status task_a2 = ARCHIVED
   \<and> (\<exists>task'. fst (archiveTask 3000 (task_id task_a2) (user_id alice) seeded) = Inr task'
         \<and> status task' = ARCHIVED
         \<and> find (\<lambda>t. task_id t = task_id task_a2)
              (tasks (snd (archiveTask 3000 (task_id task_a2) (user_id alice) seeded)))
             = Some task')"
proof -
  have found: "find (\<lambda>t. task_id t = task_id task_a2) (tasks seeded) = Some task_a2"
    by (simp add: seeded_rows)
  have owned: "userId task_a2 = user_id alice"
    by (simp add: task_a2_def)
  have "status task_a2 = ARCHIVED"
    by (simp add: task_a2_def)
  with archiveTask_sets_ARCHIVED [OF found owned, of 3000] show ?thesis
    by simp
qed

text \<open>
  Claim C9, as the code has it. For an existing task owned by the caller, \<open>archiveTask\<close>
  writes the status and the time of the update, which the ORM stamps on the row, and
  nothing else: the task's title, description, owner, identifier and creation time are
  kept, and every other task and the users are as before.
\<close>

theorem archiveTask_frame:
  assumes "find (\<lambda>t. task_id t = taskId) (tasks db) = Some task" and "userId task = uid"
  shows "\<exists>task'. fst (archiveTask now taskId uid db) = Inr task'
           \<and> find (\<lambda>t. task_id t = taskId) (tasks (snd (archiveTask now taskId uid db))) = Some task'
           \<and> task' = task\<lparr>status := ARCHIVED, updatedAt := now\<rparr>
           \<and> status task' = ARCHIVED
           \<and> updatedAt task' = now
           \<and> title task' = title task
           \<and> description task' = description task
           \<and> userId task' = userId task
           \<and> task_id task' = task_id task
           \<and> createdAt task' = createdAt task
           \<and> filter (\<lambda>r. task_id r \<noteq> taskId) (tasks (snd (archiveTask now taskId uid db)))
               = filter (\<lambda>r. task_id r \<noteq> taskId) (tasks db)
           \<and> length (tasks (snd (archiveTask now taskId uid db))) = length (tasks db)
           \<and> users (snd (archiveTask now taskId uid db)) = users db"
  using assms 
  by (simp add: archiveTask_owned [where task = task] find_rewritten [where t = task] others_untouched)

theorem archiveTask_frame_witness:
  "\<exists>task'. fst (archiveTask 3000 (task_id task_a1) (user_id alice) seeded) = Inr task'
     \<and> status task' = ARCHIVED
     \<and> updatedAt task' = 3000
     \<and> title task' = ''Write unit tests''
     \<and> description task' = Some ''Add test coverage for the service layer''
     \<and> userId task' = user_id alice
     \<and> task_id task' = ''aaaaaaaa-0000-4000-8000-000000000001''
     \<and> createdAt task' = 2000
     \<and> filter (\<lambda>r. task_id r \<noteq> task_id task_a1)
          (tasks (snd (archiveTask 3000 (task_id task_a1) (user_id alice) seeded)))
         = [task_a2, task_b1]"
proof -
  have found: "find (\<lambda>t. task_id t = task_id task_a1) (tasks seeded) = Some task_a1"
    by (simp add: seeded_rows)
  have owned: "userId task_a1 = user_id alice"
    by (simp add: task_a1_def)
  have rest: "filter (\<lambda>r. task_id r \<noteq> task_id task_a1) (tasks seeded) = [task_a2, task_b1]"
    by (simp add: seeded_rows)
  from archiveTask_frame [OF found owned, of 3000] rest show ?thesis
    by (auto simp: task_a1_def)
qed

text \<open>
  Claim C9 as stated has the status as the only field that changes. Archiving Alice's
  task, last updated at 2000, at time 3000 also sets its update time to 3000.
\<close>

theorem archiveTask_stamps_updatedAt:
  "fst (archiveTask 3000 (task_id task_a1) (user_id alice) seeded)
     = Inr (task_a1\<lparr>status := ARCHIVED, updatedAt := 3000\<rparr>)
   \<and> updatedAt task_a1 = 2000
   \<and> updatedAt (task_a1\<lparr>status := ARCHIVED, updatedAt := 3000\<rparr>) = 3000"
proof -
  have found: "find (\<lambda>t. task_id t = task_id task_a1) (tasks seeded) = Some task_a1"
    by (simp add: seeded_rows)
  have owned: "userId task_a1 = user_id alice"
    by (simp add: task_a1_def)
  show ?thesis
    by (simp add: archiveTask_owned [OF found owned]) (simp add: task_a1_def)
qed

section \<open>Partial updates\<close>

text \<open>
  Claim C5. An update of an existing task by its owner, with a status that is a member
  of the enum when one is given, succeeds; a field absent from the partial keeps its
  value; a description given as \<open>null\<close> or as a string, the empty one included, is
  written, and only an absent description leaves the stored one as it is; a non-empty
  title and a status that are given are written. Identifier, owner and creation time stay.
\<close>

theorem updateTask_applies_present_fields:
  assumes "find (\<lambda>t. task_id t = taskId) (tasks db) = Some task" and "userId task = uid"
    and "truthy (ub_status data) \<longrightarrow> valid_status (ub_status data)"
  shows "\<exists>task'. fst (updateTask now taskId uid data db) = Inr task'
           \<and> find (\<lambda>t. task_id t = taskId) (tasks (snd (updateTask now taskId uid data db)))
               = Some task'
           \<and> (ub_title data = Undefined \<longrightarrow> title task' = title task)
           \<and> (ub_description data = Undefined \<longrightarrow> description task' = description task)
           \<and> (ub_status data = Undefined \<longrightarrow> status task' = status task)
           \<and> (ub_description data = Null \<longrightarrow> description task' = None)
           \<and> (\<forall>s. ub_description data = Str s \<longrightarrow> description task' = Some s)
           \<and> (\<forall>s. ub_title data = Str s \<and> s \<noteq> [] \<longrightarrow> title task' = s)
           \<and> (\<forall>s st. ub_status data = Str s \<and> status_of_string s = Some st \<longrightarrow> status task' = st)
           \<and> task_id task' = task_id task \<and> userId task' = userId task
           \<and> createdAt task' = createdAt task"
proof -
  let ?task' = "write_row now (update_data data) task"
  have res: "fst (updateTask now taskId uid data db) = Inr ?task'"
    by (simp add: updateTask_owned [OF assms])
  have stored: "find (\<lambda>t. task_id t = taskId) (tasks (snd (updateTask now taskId uid data db)))
      = Some ?task'"
    by (simp add: updateTask_owned [OF assms] find_rewritten [OF assms(1)])
  have absent: "(ub_title data = Undefined \<longrightarrow> title ?task' = title task)
      \<and> (ub_description data = Undefined \<longrightarrow> description ?task' = description task)
      \<and> (ub_status data = Undefined \<longrightarrow> status ?task' = status task)"
    by simp
  have descr: "(ub_description data = Null \<longrightarrow> description ?task' = None)
      \<and> (\<forall>s. ub_description data = Str s \<longrightarrow> description ?task' = Some s)"
    by simp
  have present: "(\<forall>s. ub_title data = Str s \<and> s \<noteq> [] \<longrightarrow> title ?task' = s)
      \<and> (\<forall>s st. ub_status data = Str s \<and> status_of_string s = Some st \<longrightarrow> status ?task' = st)"
    by auto
  have fixed: "task_id ?task' = task_id task \<and> userId ?task' = userId task
      \<and> createdAt ?task' = createdAt task"
    by simp
  from res stored absent descr present fixed show ?thesis
    by blast
qed

theorem updateTask_applies_present_fields_witness:
  "(\<exists>task'. fst (updateTask 3000 (task_id task_a1) (user_id alice)
          \<lparr>ub_title = Undefined, ub_description = Str [], ub_status = Str ''DONE''\<rparr> seeded)
        = Inr task'
      \<and> title task' = ''Write unit tests'' \<and> description task' = Some [] \<and> status task' = DONE)
   \<and> (\<exists>task'. fst (updateTask 3000 (task_id task_a1) (user_id alice)
          \<lparr>ub_title = Str ''Write more tests'', ub_description = Null, ub_status = Undefined\<rparr>
          seeded)
        = Inr task'
      \<and> title task' = ''Write more tests'' \<and> description task' = None \<and> status task' = TODO)
   \<and> (\<exists>task'. fst (updateTask 3000 (task_id task_a1) (user_id alice)
          \<lparr>ub_title = Undefined, ub_description = Undefined, ub_status = Undefined\<rparr>
          seeded)
        = Inr task'
      \<and> title task' = ''Write unit tests''
      \<and> description task' = Some ''Add test coverage for the service layer''
      \<and> status task' = TODO)"
proof -
  have found: "find (\<lambda>t. task_id t = task_id task_a1) (tasks seeded) = Some task_a1"
    by (simp add: seeded_rows)
  have owned: "userId task_a1 = user_id alice"
    by (simp add: task_a1_def)
  have ok1: "truthy (ub_status \<lparr>ub_title = Undefined, ub_description = Str [], ub_status = Str ''DONE''\<rparr>)
    \<longrightarrow> valid_status (ub_status \<lparr>ub_title = Undefined, ub_description = Str [], ub_status = Str ''DONE''\<rparr>)"
    by simp
  have ok2: "truthy (ub_status \<lparr>ub_title = Str ''Write more tests'', ub_description = Null, ub_status = Undefined\<rparr>)
    \<longrightarrow> valid_status (ub_status \<lparr>ub_title = Str ''Write more tests'', ub_description = Null, ub_status = Undefined\<rparr>)"
    by simp
  have ok3: "truthy (ub_status \<lparr>ub_title = Undefined, ub_description = Undefined, ub_status = Undefined\<rparr>)
    \<longrightarrow> valid_status (ub_status \<lparr>ub_title = Undefined, ub_description = Undefined, ub_status = Undefined\<rparr>)"
    by simp
  have one: "\<exists>task'. fst (updateTask 3000 (task_id task_a1) (user_id alice)
          \<lparr>ub_title = Undefined, ub_description = Str [], ub_status = Str ''DONE''\<rparr> seeded)
        = Inr task'
      \<and> title task' = ''Write unit tests'' \<and> description task' = Some [] \<and> status task' = DONE"
    using updateTask_applies_present_fields [OF found owned ok1, of 3000]
    by (auto simp: task_a1_def)
  have two: "\<exists>task'. fst (updateTask 3000 (task_id task_a1) (user_id alice)
          \<lparr>ub_title = Str ''Write more tests'', ub_description = Null, ub_status = Undefined\<rparr>
          seeded)
        = Inr task'
      \<and> title task' = ''Write more tests'' \<and> description task' = None \<and> status task' = TODO"
    using updateTask_applies_present_fields [OF found owned ok2, of 3000]
    by (auto simp: task_a1_def)
  have three: "\<exists>task'. fst (updateTask 3000 (task_id task_a1) (user_id alice)
          \<lparr>ub_title = Undefined, ub_description = Undefined, ub_status = Undefined\<rparr>
          seeded)
        = Inr task'
      \<and> title task' = ''Write unit tests''
      \<and> description task' = Some ''Add test coverage for the service layer''
      \<and> status task' = TODO"
    using updateTask_applies_present_fields [OF found owned ok3, of 3000]
    by (auto simp: task_a1_def)
  from one two three show ?thesis
    by blast
qed

lemma update_data_empty_title:
  "update_data (data\<lparr>ub_title := Str []\<rparr>) = update_data (data\<lparr>ub_title := Undefined\<rparr>)"
  by (simp add: update_data_def)

lemma update_data_empty_status:
  "update_data (data\<lparr>ub_status := Str []\<rparr>) = update_data (data\<lparr>ub_status := Undefined\<rparr>)"
  by (simp add: update_data_def)

text \<open>
  Claim C10. The repository's update handles a partial whose title is the empty string
  as it handles one with no title, and likewise for the status: both are spread into
  the data only when truthy. On an existing task the stored title and status stay,
  while an empty-string description is written.
\<close>

theorem update_skips_empty_title_and_status:
  "TaskRepository_update now i (data\<lparr>ub_title := Str []\<rparr>) db
     = TaskRepository_update now i (data\<lparr>ub_title := Undefined\<rparr>) db
   \<and> TaskRepository_update now i (data\<lparr>ub_status := Str []\<rparr>) db
     = TaskRepository_update now i (data\<lparr>ub_status := Undefined\<rparr>) db
   \<and> (\<forall>task. find (\<lambda>t. task_id t = i) (tasks db) = Some task \<longrightarrow>
        (\<exists>task'. fst (TaskRepository_update now i
                     \<lparr>ub_title = Str [], ub_description = Str [], ub_status = Str []\<rparr> db)
                   = Inr task'
           \<and> find (\<lambda>t. task_id t = i)
                (tasks (snd (TaskRepository_update now i
                     \<lparr>ub_title = Str [], ub_description = Str [], ub_status = Str []\<rparr> db)))
               = Some task'
           \<and> title task' = title task
           \<and> status task' = status task
           \<and> description task' = Some []))"
proof -
  have t: "TaskRepository_update now i (data\<lparr>ub_title := Str []\<rparr>) db
     = TaskRepository_update now i (data\<lparr>ub_title := Undefined\<rparr>) db"
    by (simp add: TaskRepository_update_def update_data_empty_title)
  have s: "TaskRepository_update now i (data\<lparr>ub_status := Str []\<rparr>) db
     = TaskRepository_update now i (data\<lparr>ub_status := Undefined\<rparr>) db"
    by (simp add: TaskRepository_update_def update_data_empty_status)
  have d: "\<exists>task'. fst (TaskRepository_update now i
                     \<lparr>ub_title = Str [], ub_description = Str [], ub_status = Str []\<rparr> db)
                   = Inr task'
           \<and> find (\<lambda>t. task_id t = i)
                (tasks (snd (TaskRepository_update now i
                     \<lparr>ub_title = Str [], ub_description = Str [], ub_status = Str []\<rparr> db)))
               = Some task'
           \<and> title task' = title task
           \<and> status task' = status task
           \<and> description task' = Some []"
    if found: "find (\<lambda>t. task_id t = i) (tasks db) = Some task" for task
    by (simp add: TaskRepository_update_found [OF found] find_rewritten [OF found])
  from t s d show ?thesis
    by blast
qed

theorem update_skips_empty_title_and_status_witness:
  "\<exists>task'. fst (TaskRepository_update 3000 (task_id task_b1)
                   \<lparr>ub_title = Str [], ub_description = Str [], ub_status = Str []\<rparr> seeded)
             = Inr task'
     \<and> title task' = ''Database migration'' \<and> status task' = TODO
     \<and> description task' = Some []"
proof -
  have found: "find (\<lambda>t. task_id t = task_id task_b1) (tasks seeded) = Some task_b1"
    by (simp add: seeded_rows)
  from update_skips_empty_title_and_status [of 3000 "task_id task_b1"
      "\<lparr>ub_title = Undefined, ub_description = Undefined, ub_status = Undefined\<rparr>" seeded] found
  show ?thesis
    by (auto simp: task_b1_def)
qed


section \<open>Creating a task\<close>

lemma list_ex_id: "list_ex (\<lambda>t. f t = i) ts \<longleftrightarrow> i \<in> f ` set ts"
  by (auto simp: list_ex_iff)

lemma create_data_status:
  "truthy st \<longrightarrow> valid_status st \<Longrightarrow>
   status_column (if truthy st then st else Str (string_of_status TODO))
     = Some (case st of Str s \<Rightarrow> (if s = [] then TODO else the (status_of_string s)) | _ \<Rightarrow> TODO)"
  by (cases st) auto

text \<open>
  Claim C4. A created task has the supplied owner, and status \<open>TODO\<close> when the input
  has no status. Creation succeeds for an existing owner, whatever the titles of the
  tasks already there: no uniqueness constraint applies to the title.
\<close>

theorem createTask_defaults_and_owner:
  "(\<forall>t. fst (createTask now newId uid data db) = Inr t \<longrightarrow>
       userId t = uid \<and> title t = cb_title data
     \<and> (cb_status data = Undefined \<longrightarrow> status t = TODO))
   \<and> (uid \<in> user_id ` set (users db) \<and> newId \<notin> task_id ` set (tasks db)
        \<and> (truthy (cb_status data) \<longrightarrow> valid_status (cb_status data)) \<longrightarrow>
       (\<exists>t. fst (createTask now newId uid data db) = Inr t
          \<and> tasks (snd (createTask now newId uid data db)) = tasks db @ [t]))"
proof -
  have a: "userId t = uid \<and> title t = cb_title data
     \<and> (cb_status data = Undefined \<longrightarrow> status t = TODO)"
    if "fst (createTask now newId uid data db) = Inr t" for t
    using that
    by (auto simp: createTask_def TaskRepository_create_def prisma_task_create_def Let_def
        split: option.splits if_splits)
  have b: "\<exists>t. fst (createTask now newId uid data db) = Inr t
          \<and> tasks (snd (createTask now newId uid data db)) = tasks db @ [t]"
    if "uid \<in> user_id ` set (users db)" and "newId \<notin> task_id ` set (tasks db)"
      and "truthy (cb_status data) \<longrightarrow> valid_status (cb_status data)"
    using that
    by (simp add: createTask_def TaskRepository_create_def prisma_task_create_def Let_def
        list_ex_id create_data_status)
  from a b show ?thesis
    by blast
qed

theorem createTask_defaults_and_owner_witness:
  "\<exists>t. fst (createTask 3000 ''aaaaaaaa-0000-4000-8000-000000000003'' (user_id alice)
             \<lparr>cb_title = title task_a1, cb_description = Undefined, cb_status = Undefined\<rparr>
             seeded) = Inr t
     \<and> tasks (snd (createTask 3000 ''aaaaaaaa-0000-4000-8000-000000000003'' (user_id alice)
             \<lparr>cb_title = title task_a1, cb_description = Undefined, cb_status = Undefined\<rparr>
             seeded)) = [task_a1, task_a2, task_b1, t]
     \<and> status t = TODO \<and> userId t = user_id alice \<and> title t = title task_a1"
proof -
  have "user_id alice \<in> user_id ` set (users seeded)"
    by (simp add: seeded_simps)
  moreover have "''aaaaaaaa-0000-4000-8000-000000000003'' \<notin> task_id ` set (tasks seeded)"
    by (simp add: seeded_rows)
  ultimately show ?thesis
    using createTask_defaults_and_owner [of 3000 "''aaaaaaaa-0000-4000-8000-000000000003''"
        "user_id alice"
        "\<lparr>cb_title = title task_a1, cb_description = Undefined, cb_status = Undefined\<rparr>" seeded]
    by (auto simp: seeded_simps)
qed

section \<open>Listing\<close>

lemma newest_first_orderBy:
  "sorted_wrt (\<lambda>a b. createdAt b \<le> createdAt a) (orderBy_createdAt_desc ts)"
proof -
  have "sorted (map createdAt (sort_key createdAt ts))"
    by (rule sorted_sort_key)
  then have "sorted_wrt (\<lambda>a b. createdAt a \<le> createdAt b) (sort_key createdAt ts)"
    by (simp add: sorted_wrt_map)
  then show ?thesis
    by (simp add: orderBy_createdAt_desc_def sorted_wrt_rev)
qed

lemma mset_orderBy [simp]: "mset (orderBy_createdAt_desc ts) = mset ts"
  by (simp add: orderBy_createdAt_desc_def)

lemma set_orderBy [simp]: "set (orderBy_createdAt_desc ts) = set ts"
  by (simp add: orderBy_createdAt_desc_def)

text \<open>
  Claim C6. Listing returns exactly the caller's tasks, each once, and none of another
  user; with a status filter, exactly those of the caller's tasks that have the status;
  in both cases newest first by creation time.
\<close>

theorem getTasks_lists_own_tasks_newest_first:
  "(filters = None \<or> (\<exists>f. filters = Some f \<and> f_status f = Undefined) \<longrightarrow>
      (\<exists>ts. fst (getTasks uid filters db) = Inr ts
         \<and> mset ts = mset (filter (\<lambda>t. userId t = uid) (tasks db))
         \<and> (\<forall>t \<in> set ts. userId t = uid)
         \<and> sorted_wrt (\<lambda>a b. createdAt b \<le> createdAt a) ts))
   \<and> (\<forall>f st. filters = Some f \<and> f_status f = Str (string_of_status st) \<longrightarrow>
      (\<exists>ts. fst (getTasks uid filters db) = Inr ts
         \<and> mset ts = mset (filter (\<lambda>t. userId t = uid \<and> status t = st) (tasks db))
         \<and> (\<forall>t \<in> set ts. userId t = uid \<and> status t = st)
         \<and> sorted_wrt (\<lambda>a b. createdAt b \<le> createdAt a) ts))"
proof -
  have truthy_st: "truthy (Str (string_of_status st))" for st
    by (cases st) simp_all
  have all: "\<exists>ts. fst (getTasks uid filters db) = Inr ts
         \<and> mset ts = mset (filter (\<lambda>t. userId t = uid) (tasks db))
         \<and> (\<forall>t \<in> set ts. userId t = uid)
         \<and> sorted_wrt (\<lambda>a b. createdAt b \<le> createdAt a) ts"
    if "filters = None \<or> (\<exists>f. filters = Some f \<and> f_status f = Undefined)"
    using that
    by (auto simp: getTasks_def TaskRepository_findByUserId_def prisma_task_findMany_def
        Let_def newest_first_orderBy)
  have some: "\<exists>ts. fst (getTasks uid filters db) = Inr ts
         \<and> mset ts = mset (filter (\<lambda>t. userId t = uid \<and> status t = st) (tasks db))
         \<and> (\<forall>t \<in> set ts. userId t = uid \<and> status t = st)
         \<and> sorted_wrt (\<lambda>a b. createdAt b \<le> createdAt a) ts"
    if "filters = Some f" and "f_status f = Str (string_of_status st)" for f st
    using that truthy_st [of st]
    by (simp add: getTasks_def TaskRepository_findByUserId_def prisma_task_findMany_def
        Let_def newest_first_orderBy status_of_string_of_status conj_commute)
  from all some show ?thesis
    by blast
qed

theorem getTasks_lists_own_tasks_newest_first_witness:
  "fst (getTasks (user_id alice) None seeded) = Inr [task_a2, task_a1]
   \<and> fst (getTasks (user_id alice) (Some \<lparr>f_status = Str ''TODO''\<rparr>) seeded) = Inr [task_a1]
   \<and> fst (getTasks (user_id bob) (Some \<lparr>f_status = Undefined\<rparr>) seeded) = Inr [task_b1]"
  using getTasks_lists_own_tasks_newest_first [of None "user_id alice" seeded]
  by (simp add: getTasks_def TaskRepository_findByUserId_def prisma_task_findMany_def
      orderBy_createdAt_desc_def Let_def seeded_rows)

section \<open>Creating a user\<close>

lemma find_email_None:
  "find (\<lambda>u. email u = e) us = None \<longleftrightarrow> e \<notin> email ` set us"
  by (auto simp: find_None_iff)

lemma findByEmail_result:
  "UserRepository_findByEmail e db =
     (find (\<lambda>u. email u = e) (users db), sent (User_findUnique_email e) db)"
  by (simp add: UserRepository_findByEmail_def prisma_user_findUnique_email_def)

text \<open>
  Claim C7. When a user with exactly the given email exists, \<open>createUser\<close> fails with
  Conflict after the lookup alone, no insert being sent, and both tables are as before.
  An email that differs, be it only in case, is no conflict.
\<close>

theorem createUser_conflict_on_same_email:
  "(cu_email data \<in> email ` set (users db) \<longrightarrow>
      fst (createUser now newId data db) = Inl (ConflictError ''Email already in use'')
    \<and> users (snd (createUser now newId data db)) = users db
    \<and> tasks (snd (createUser now newId data db)) = tasks db
    \<and> queryLog (snd (createUser now newId data db))
        = queryLog db @ [User_findUnique_email (cu_email data)])
   \<and> (cu_email data \<notin> email ` set (users db) \<longrightarrow>
      fst (createUser now newId data db) \<noteq> Inl (ConflictError ''Email already in use'')
    \<and> queryLog (snd (createUser now newId data db))
        = queryLog db @ [User_findUnique_email (cu_email data), User_create])"
proof -
  have hit: "fst (createUser now newId data db) = Inl (ConflictError ''Email already in use'')
    \<and> users (snd (createUser now newId data db)) = users db
    \<and> tasks (snd (createUser now newId data db)) = tasks db
    \<and> queryLog (snd (createUser now newId data db))
        = queryLog db @ [User_findUnique_email (cu_email data)]"
    if "cu_email data \<in> email ` set (users db)"
  proof -
    from that obtain u where "find (\<lambda>u. email u = cu_email data) (users db) = Some u"
      using find_email_None [of "cu_email data" "users db"] by auto
    then show ?thesis
      by (simp add: createUser_def findByEmail_result)
  qed
  have miss: "fst (createUser now newId data db) \<noteq> Inl (ConflictError ''Email already in use'')
    \<and> queryLog (snd (createUser now newId data db))
        = queryLog db @ [User_findUnique_email (cu_email data), User_create]"
    if "cu_email data \<notin> email ` set (users db)"
  proof -
    from that have "find (\<lambda>u. email u = cu_email data) (users db) = None"
      by (simp add: find_email_None)
    then show ?thesis
      by (simp add: createUser_def findByEmail_result UserRepository_create_def
          prisma_user_create_def Let_def ConflictError_def)
  qed
  from hit miss show ?thesis
    by blast
qed

theorem createUser_conflict_on_same_email_witness:
  "createUser 3000 ''33333333-3333-4333-8333-333333333333''
     \<lparr>cu_email = ''alice@example.com'', cu_name = ''Another Alice''\<rparr> seeded
     = (Inl (ConflictError ''Email already in use''),
        seeded\<lparr>queryLog := [User_findUnique_email ''alice@example.com'']\<rparr>)
   \<and> fst (createUser 3000 ''33333333-3333-4333-8333-333333333333''
          \<lparr>cu_email = ''Alice@example.com'', cu_name = ''Another Alice''\<rparr> seeded)
     = Inr \<lparr>user_id = ''33333333-3333-4333-8333-333333333333'',
             email = ''Alice@example.com'', name = ''Another Alice'',
             user_createdAt = 3000, user_updatedAt = 3000\<rparr>"
  using createUser_conflict_on_same_email [of
      "\<lparr>cu_email = ''alice@example.com'', cu_name = ''Another Alice''\<rparr>" seeded 3000
      "''33333333-3333-4333-8333-333333333333''"]
  by (simp add: createUser_def findByEmail_result UserRepository_create_def
      prisma_user_create_def Let_def seeded_rows sent_def)

section \<open>Resolving the caller\<close>

lemma find_user_None:
  "find (\<lambda>u. user_id u = i) us = None \<longleftrightarrow> i \<notin> user_id ` set us"
  by (auto simp: find_None_iff)

lemma find_user_Some:
  "i \<in> user_id ` set us \<Longrightarrow> \<exists>u. find (\<lambda>u. user_id u = i) us = Some u"
  using find_user_None [of i us] by auto

lemma UUID_not_empty [simp]: "\<not> UUID_REGEX_test []"
  by (simp add: UUID_REGEX_test_def)

text \<open>The pattern, spelt out: five groups of 8, 4, 4, 4 and 12 hexadecimal digits of
  either case, with a hyphen between two groups.\<close>

lemma UUID_REGEX_test_iff:
  "UUID_REGEX_test s \<longleftrightarrow>
     (\<exists>a b c d e. s = a @ ''-'' @ b @ ''-'' @ c @ ''-'' @ d @ ''-'' @ e
        \<and> length a = 8 \<and> length b = 4 \<and> length c = 4 \<and> length d = 4 \<and> length e = 12
        \<and> list_all hex_any (a @ b @ c @ d @ e))"
  (is "?l \<longleftrightarrow> ?r")
proof
  assume ?r
  then show ?l
    by (auto simp: UUID_REGEX_test_def nth_append)
next
  assume l: ?l
  define a where "a = take 8 s"
  define b where "b = take 4 (drop 9 s)"
  define c where "c = take 4 (drop 14 s)"
  define d where "d = take 4 (drop 19 s)"
  define e where "e = drop 24 s"
  from l have len: "length s = 36"
    by (auto simp: UUID_REGEX_test_def)
  from l have hy: "s ! 8 = CHR ''-''" "s ! 13 = CHR ''-''" "s ! 18 = CHR ''-''" "s ! 23 = CHR ''-''"
    by (auto simp: UUID_REGEX_test_def)
  from l have hex: "list_all hex_any a" "list_all hex_any b" "list_all hex_any c"
    "list_all hex_any d" "list_all hex_any e"
    by (auto simp: UUID_REGEX_test_def a_def b_def c_def d_def e_def)
  have s1: "s = a @ CHR ''-'' # drop 9 s"
    using id_take_nth_drop [of 8 s] len hy by (simp add: a_def)
  have s2: "drop 9 s = b @ CHR ''-'' # drop 14 s"
    using id_take_nth_drop [of 4 "drop 9 s"] len hy by (simp add: b_def)
  have s3: "drop 14 s = c @ CHR ''-'' # drop 19 s"
    using id_take_nth_drop [of 4 "drop 14 s"] len hy by (simp add: c_def)
  have s4: "drop 19 s = d @ CHR ''-'' # e"
    using id_take_nth_drop [of 4 "drop 19 s"] len hy by (simp add: d_def e_def)
  have "s = a @ ''-'' @ b @ ''-'' @ c @ ''-'' @ d @ ''-'' @ e"
    using s1 s2 s3 s4 by simp
  moreover have "length a = 8 \<and> length b = 4 \<and> length c = 4 \<and> length d = 4 \<and> length e = 12"
    using len by (simp add: a_def b_def c_def d_def e_def)
  moreover have "list_all hex_any (a @ b @ c @ d @ e)"
    using hex by simp
  ultimately show ?r
    by blast
qed


lemma seeded_user_ids: "user_id ` set (users seeded) = {user_id alice, user_id bob}"
  by (auto simp: seeded_simps)

lemma alice_id_UUID: "UUID_REGEX_test (user_id alice)"
  by (simp add: alice_def UUID_REGEX_test_def hex_any_def)

lemma bob_id_UUID: "UUID_REGEX_test (user_id bob)"
  by (simp add: bob_def UUID_REGEX_test_def hex_any_def)

text \<open>
  Claim C2, as the code has it. The credential is the header \<^verbatim>\<open>x-user-id\<close>, or the
  query parameter \<^verbatim>\<open>userId\<close> when the header is absent or empty. The middleware fails
  with Unauthenticated, without a lookup, when the credential is missing or empty or does
  not match the pattern, and after one lookup when no user has it; otherwise it attaches
  the credential to the request, after exactly one lookup.
\<close>

theorem authMiddleware_resolves_caller:
  assumes "cred = (case headers request ''x-user-id'' of
                     None \<Rightarrow> query request ''userId''
                   | Some h \<Rightarrow> if h = [] then query request ''userId'' else Some h)"
  shows "(cred = None \<or> cred = Some [] \<longrightarrow>
            authMiddleware request db =
              (Inl (UnauthorizedError
                 ''Missing user identifier. Provide x-user-id header or userId query parameter.''),
               db))
       \<and> (\<forall>uid. cred = Some uid \<and> uid \<noteq> [] \<and> \<not> UUID_REGEX_test uid \<longrightarrow>
            authMiddleware request db =
              (Inl (UnauthorizedError ''Invalid user identifier format.''), db))
       \<and> (\<forall>uid. cred = Some uid \<and> UUID_REGEX_test uid \<and> uid \<notin> user_id ` set (users db) \<longrightarrow>
            authMiddleware request db =
              (Inl (UnauthorizedError ''User not found.''), sent (User_findUnique_id uid) db))
       \<and> (\<forall>uid. cred = Some uid \<and> UUID_REGEX_test uid \<and> uid \<in> user_id ` set (users db) \<longrightarrow>
            authMiddleware request db =
              (Inr (request\<lparr>req_userId := Some uid\<rparr>), sent (User_findUnique_id uid) db))"
proof -
  have cred: "(if missing (headers request ''x-user-id'') then query request ''userId''
               else headers request ''x-user-id'') = cred"
    using assms by (cases "headers request ''x-user-id''") simp_all
  have none: "authMiddleware request db =
              (Inl (UnauthorizedError
                 ''Missing user identifier. Provide x-user-id header or userId query parameter.''),
               db)" if "cred = None \<or> cred = Some []"
    using that by (auto simp: authMiddleware_def cred)
  have bad: "authMiddleware request db =
              (Inl (UnauthorizedError ''Invalid user identifier format.''), db)"
    if "cred = Some uid" "uid \<noteq> []" "\<not> UUID_REGEX_test uid" for uid
    using that by (simp add: authMiddleware_def cred)
  have unknown: "authMiddleware request db =
              (Inl (UnauthorizedError ''User not found.''), sent (User_findUnique_id uid) db)"
    if "cred = Some uid" "UUID_REGEX_test uid" "uid \<notin> user_id ` set (users db)" for uid
  proof -
    from that(2) have "uid \<noteq> []" by auto
    moreover from that(3) have "find (\<lambda>u. user_id u = uid) (users db) = None"
      by (simp add: find_user_None)
    ultimately show ?thesis
      using that by (simp add: authMiddleware_def cred prisma_user_findUnique_id_def)
  qed
  have known: "authMiddleware request db =
              (Inr (request\<lparr>req_userId := Some uid\<rparr>), sent (User_findUnique_id uid) db)"
    if "cred = Some uid" "UUID_REGEX_test uid" "uid \<in> user_id ` set (users db)" for uid
  proof -
    from that(2) have "uid \<noteq> []" by auto
    moreover from that(3) obtain u where "find (\<lambda>u. user_id u = uid) (users db) = Some u"
      using find_user_Some by blast
    ultimately show ?thesis
      using that by (simp add: authMiddleware_def cred prisma_user_findUnique_id_def)
  qed
  from none bad unknown known show ?thesis
    by blast
qed

theorem authMiddleware_resolves_caller_witness:
  "authMiddleware alice_archives_own seeded
     = (Inr (alice_archives_own\<lparr>req_userId := Some (user_id alice)\<rparr>),
        seeded\<lparr>queryLog := [User_findUnique_id (user_id alice)]\<rparr>)
   \<and> authMiddleware anonymous_archives seeded
     = (Inl (UnauthorizedError
          ''Missing user identifier. Provide x-user-id header or userId query parameter.''),
        seeded)"
proof -
  have here: "Some (user_id alice) =
      (case headers alice_archives_own ''x-user-id'' of
         None \<Rightarrow> query alice_archives_own ''userId''
       | Some h \<Rightarrow> if h = [] then query alice_archives_own ''userId'' else Some h)"
    by (simp add: alice_archives_own_def alice_def)
  have none: "None =
      (case headers anonymous_archives ''x-user-id'' of
         None \<Rightarrow> query anonymous_archives ''userId''
       | Some h \<Rightarrow> if h = [] then query anonymous_archives ''userId'' else Some h)"
    by (simp add: anonymous_archives_def)
  have log: "sent (User_findUnique_id (user_id alice)) seeded
     = seeded\<lparr>queryLog := [User_findUnique_id (user_id alice)]\<rparr>"
    by (simp add: sent_def seeded_simps)
  from authMiddleware_resolves_caller [OF here, of seeded]
    authMiddleware_resolves_caller [OF none, of seeded]
  show ?thesis
    by (simp add: alice_id_UUID seeded_user_ids log)
qed

text \<open>
  Claim C2 as stated has the fallback only for an absent header. A request whose header
  \<^verbatim>\<open>x-user-id\<close> is there and empty is authenticated by its query parameter.
\<close>

theorem authMiddleware_empty_header_falls_back:
  "headers alice_by_query_empty_header ''x-user-id'' = Some []
   \<and> query alice_by_query_empty_header ''userId'' = Some (user_id alice)
   \<and> fst (authMiddleware alice_by_query_empty_header seeded)
     = Inr (alice_by_query_empty_header\<lparr>req_userId := Some (user_id alice)\<rparr>)"
proof -
  have "find (\<lambda>u. user_id u = user_id alice) (users seeded) = Some alice"
    by (simp add: seeded_simps)
  then show ?thesis
    using alice_id_UUID
    by (simp add: authMiddleware_def alice_by_query_empty_header_def
        prisma_user_findUnique_id_def) (simp add: alice_def)
qed

section \<open>The archive route\<close>

lemma errorHandler_status [simp]:
  "reply_status (errorHandler (UnauthorizedError m)) = 401"
  "reply_status (errorHandler (ForbiddenError m)) = 403"
  "reply_status (errorHandler (NotFoundError r)) = 404"
  "reply_status (errorHandler (ConflictError m)) = 409"
  "reply_status (errorHandler (ValidationError m)) = 400"
  "reply_status (errorHandler (PrismaClientError f)) = 500"
  "reply_status (errorHandler (OtherError (Some 429))) = 429"
  by (simp_all add: UnauthorizedError_def ForbiddenError_def NotFoundError_def
      ConflictError_def ValidationError_def)

lemma awaited_quiet:
  "\<not> throws env q \<Longrightarrow> meanwhile env q = id \<Longrightarrow> awaited env q run db = run db"
  by (simp add: awaited_def)

lemma authMiddleware_under_quiet:
  assumes "\<forall>u. \<not> throws env (User_findUnique_id u)" and "\<forall>q. meanwhile env q = id"
  shows "authMiddleware_under env request db = authMiddleware request db"
  using assms
  by (auto simp: authMiddleware_under_def authMiddleware_def awaited_quiet returned_def Let_def
      split: option.splits prod.splits)

lemma archiveTask_under_quiet:
  assumes "\<forall>q. \<not> throws env q" and "\<forall>q. meanwhile env q = id"
  shows "archiveTask_under env now taskId uid db = archiveTask now taskId uid db"
  using assms
  by (auto simp: archiveTask_under_def archiveTask_def awaited_quiet returned_def
      split: option.splits prod.splits)

lemma authMiddleware_outcome:
  "(\<exists>m db1. authMiddleware request db = (Inl (UnauthorizedError m), db1))
   \<or> (\<exists>uid. authMiddleware request db =
          (Inr (request\<lparr>req_userId := Some uid\<rparr>), sent (User_findUnique_id uid) db))"
  by (auto simp: authMiddleware_def Let_def prisma_user_findUnique_id_def split: option.splits)

lemma authMiddleware_under_outcome:
  "(\<exists>m db1. authMiddleware_under env request db = (Inl (UnauthorizedError m), db1))
   \<or> (\<exists>f db1. authMiddleware_under env request db = (Inl (PrismaClientError f), db1))
   \<or> (\<exists>uid db1. authMiddleware_under env request db
          = (Inr (request\<lparr>req_userId := Some uid\<rparr>), db1))"
  by (auto simp: authMiddleware_under_def Let_def awaited_def returned_def
      prisma_user_findUnique_id_def split: option.splits)

lemma archive_update_outcome:
  "(\<exists>f. fst (awaited env (Task_update i) (TaskRepository_archive now i) db)
          = Inl (PrismaClientError f))
   \<or> (\<exists>task. fst (awaited env (Task_update i) (TaskRepository_archive now i) db) = Inr task
         \<and> status task = ARCHIVED)"
  by (auto simp: awaited_def TaskRepository_archive_def prisma_task_update_def Let_def
      valid_update_def split: option.splits)

lemma archiveTask_under_outcome:
  "fst (archiveTask_under env now i uid db) = Inl (NotFoundError ''Task'')
   \<or> fst (archiveTask_under env now i uid db)
        = Inl (ForbiddenError ''You do not have access to this task'')
   \<or> (\<exists>f. fst (archiveTask_under env now i uid db) = Inl (PrismaClientError f))
   \<or> (\<exists>task. fst (archiveTask_under env now i uid db) = Inr task \<and> status task = ARCHIVED)"
proof (cases "awaited env (Task_findUnique i) (returned (TaskRepository_findById i)) db")
  case (Pair r db1)
  show ?thesis
  proof (cases r)
    case (Inl e)
    with Pair have "e = PrismaClientError StoreUnavailable"
      by (auto simp: awaited_def returned_def Let_def split: if_splits prod.splits)
    with Pair Inl show ?thesis
      by (simp add: archiveTask_under_def)
  next
    case (Inr found)
    show ?thesis
    proof (cases found)
      case None
      with Pair Inr show ?thesis
        by (simp add: archiveTask_under_def)
    next
      case (Some task)
      show ?thesis
      proof (cases "userId task = uid")
        case True
        with Pair Inr Some archive_update_outcome [of env i now db1] show ?thesis
          by (auto simp: archiveTask_under_def)
      next
        case False
        with Pair Inr Some show ?thesis
          by (simp add: archiveTask_under_def)
      qed
    qed
  qed
qed

lemma rateLimit_within: "hits env \<le> rateLimit_max \<Longrightarrow> rateLimit env = None"
  by (simp add: rateLimit_def)

lemma rateLimit_over:
  "rateLimit_max < hits env \<Longrightarrow> rateLimit env = Some (OtherError (Some 429))"
  by (simp add: rateLimit_def)

lemma archive_route_over:
  "rateLimit_max < hits env \<Longrightarrow>
   archive_route env now request db = (errorHandler (OtherError (Some 429)), db)"
  by (simp add: archive_route_def rateLimit_over)

lemma archive_route_invalid:
  "hits env \<le> rateLimit_max \<Longrightarrow> \<not> archiveTaskSchema request \<Longrightarrow>
   archive_route env now request db = (errorHandler FastifyValidation, db)"
  by (simp add: archive_route_def rateLimit_within)

lemma archive_route_unauthenticated:
  "hits env \<le> rateLimit_max \<Longrightarrow> archiveTaskSchema request \<Longrightarrow>
   authMiddleware_under env request db = (Inl e, db1) \<Longrightarrow>
   archive_route env now request db = (errorHandler e, db1)"
  by (simp add: archive_route_def rateLimit_within)

lemma archive_route_authenticated:
  assumes "hits env \<le> rateLimit_max" and "archiveTaskSchema request"
    and "params request ''id'' = Some i"
    and "authMiddleware_under env request db = (Inr (request\<lparr>req_userId := Some uid\<rparr>), db1)"
  shows "archive_route env now request db =
           (case archiveTask_under env now i uid db1 of
              (Inl e, db2) \<Rightarrow> (errorHandler e, db2)
            | (Inr task, db2) \<Rightarrow> (\<lparr>reply_status = 200, reply_body = success task\<rparr>, db2))"
  using assms by (simp add: archive_route_def rateLimit_within)

lemma archive_route_within:
  assumes "hits env \<le> rateLimit_max"
  shows "reply_status (fst (archive_route env now request db)) \<in> {200, 400, 401, 403, 404, 500}
       \<and> (reply_status (fst (archive_route env now request db)) = 200 \<longrightarrow>
            (\<exists>task. reply_body (fst (archive_route env now request db)) = success task
               \<and> status task = ARCHIVED))"
proof (cases "archiveTaskSchema request")
  case False
  with assms show ?thesis
    by (simp add: archive_route_invalid)
next
  case valid: True
  then obtain i where i: "params request ''id'' = Some i"
    by (auto simp: archiveTaskSchema_def split: option.splits)
  from authMiddleware_under_outcome [of env request db] show ?thesis
  proof (elim disjE exE)
    fix m db1
    assume "authMiddleware_under env request db = (Inl (UnauthorizedError m), db1)"
    with assms valid show ?thesis
      by (simp add: archive_route_unauthenticated)
  next
    fix f db1
    assume "authMiddleware_under env request db = (Inl (PrismaClientError f), db1)"
    with assms valid show ?thesis
      by (simp add: archive_route_unauthenticated)
  next
    fix uid db1
    assume auth: "authMiddleware_under env request db
      = (Inr (request\<lparr>req_userId := Some uid\<rparr>), db1)"
    from archiveTask_under_outcome [of env now i uid db1] show ?thesis
      by (auto simp: archive_route_authenticated [OF assms valid i auth] split: prod.splits)
  qed
qed


lemma archiveTask_cases:
  "(taskId \<notin> task_id ` set (tasks db)
      \<and> fst (archiveTask now taskId uid db) = Inl (NotFoundError ''Task''))
   \<or> (\<exists>task. find (\<lambda>t. task_id t = taskId) (tasks db) = Some task \<and> userId task \<noteq> uid
      \<and> fst (archiveTask now taskId uid db)
          = Inl (ForbiddenError ''You do not have access to this task''))
   \<or> (\<exists>task. find (\<lambda>t. task_id t = taskId) (tasks db) = Some task \<and> userId task = uid
      \<and> fst (archiveTask now taskId uid db) = Inr (task\<lparr>status := ARCHIVED, updatedAt := now\<rparr>))"
proof (cases "find (\<lambda>t. task_id t = taskId) (tasks db)")
  case None
  then have "taskId \<notin> task_id ` set (tasks db)"
    by (simp add: find_None_iff_id)
  moreover from None have "fst (archiveTask now taskId uid db) = Inl (NotFoundError ''Task'')"
    by (simp add: archiveTask_def findById_result)
  ultimately show ?thesis
    by blast
next
  case (Some task)
  show ?thesis
  proof (cases "userId task = uid")
    case True
    with Some show ?thesis
      by (simp add: archiveTask_owned [OF Some True])
  next
    case False
    with Some show ?thesis
      by (simp add: archiveTask_def findById_result)
  qed
qed

lemma archive_route_quiet:
  assumes within: "hits env \<le> rateLimit_max"
    and quiet: "\<forall>q. \<not> throws env q" "\<forall>q. meanwhile env q = id"
  shows "reply_status (fst (archive_route env now request db)) \<in> {200, 400, 401, 403, 404}
    \<and> (archiveTaskSchema request \<and> (\<exists>e. fst (authMiddleware request db) = Inl e) \<longrightarrow>
         reply_status (fst (archive_route env now request db)) = 401)
    \<and> (\<forall>i request1 uid.
         archiveTaskSchema request \<and> params request ''id'' = Some i
         \<and> fst (authMiddleware request db) = Inr request1 \<and> req_userId request1 = Some uid \<longrightarrow>
           (i \<notin> task_id ` set (tasks db) \<longrightarrow>
              reply_status (fst (archive_route env now request db)) = 404)
         \<and> (\<forall>task. find (\<lambda>t. task_id t = i) (tasks db) = Some task \<and> userId task \<noteq> uid \<longrightarrow>
              reply_status (fst (archive_route env now request db)) = 403)
         \<and> (\<forall>task. find (\<lambda>t. task_id t = i) (tasks db) = Some task \<and> userId task = uid \<longrightarrow>
              reply_status (fst (archive_route env now request db)) = 200))"
proof (cases "archiveTaskSchema request")
  case False
  with within show ?thesis
    by (simp add: archive_route_invalid)
next
  case valid: True
  then obtain i where i: "params request ''id'' = Some i"
    by (auto simp: archiveTaskSchema_def split: option.splits)
  from quiet have "\<forall>u. \<not> throws env (User_findUnique_id u)"
    by simp
  note same = authMiddleware_under_quiet [OF this quiet(2), of request db]
  from authMiddleware_outcome [of request db] show ?thesis
  proof (elim disjE exE)
    fix m db1
    assume "authMiddleware request db = (Inl (UnauthorizedError m), db1)"
    with within valid same show ?thesis
      by (simp add: archive_route_unauthenticated)
  next
    fix uid
    assume auth: "authMiddleware request db =
      (Inr (request\<lparr>req_userId := Some uid\<rparr>), sent (User_findUnique_id uid) db)"
    with same have under: "authMiddleware_under env request db =
      (Inr (request\<lparr>req_userId := Some uid\<rparr>), sent (User_findUnique_id uid) db)"
      by simp
    have route: "archive_route env now request db =
           (case archiveTask now i uid (sent (User_findUnique_id uid) db) of
              (Inl e, db2) \<Rightarrow> (errorHandler e, db2)
            | (Inr task, db2) \<Rightarrow> (\<lparr>reply_status = 200, reply_body = success task\<rparr>, db2))"
      by (simp add: archive_route_authenticated [OF within valid i under]
          archiveTask_under_quiet [OF quiet])
    from archiveTask_cases [of i "sent (User_findUnique_id uid) db" now uid] show ?thesis
      using valid i auth
      by (auto simp: route find_None_iff_id [symmetric] split: prod.splits)
  qed
qed

lemma archive_route_lookup_throws:
  assumes "hits env \<le> rateLimit_max" and "archiveTaskSchema request"
    and "(case headers request ''x-user-id'' of
            None \<Rightarrow> query request ''userId''
          | Some h \<Rightarrow> if h = [] then query request ''userId'' else Some h) = Some uid"
    and "UUID_REGEX_test uid" and "throws env (User_findUnique_id uid)"
  shows "reply_status (fst (archive_route env now request db)) = 500"
proof -
  have cred: "(if missing (headers request ''x-user-id'') then query request ''userId''
               else headers request ''x-user-id'') = Some uid"
    using assms(3) by (cases "headers request ''x-user-id''") (simp_all split: if_splits)
  from assms(4) have "uid \<noteq> []"
    by auto
  with assms(4,5) have "authMiddleware_under env request db
      = (Inl (PrismaClientError StoreUnavailable),
         sent (User_findUnique_id uid) (meanwhile env (User_findUnique_id uid) db))"
    by (simp add: authMiddleware_under_def cred awaited_def)
  with assms(1,2) show ?thesis
    by (simp add: archive_route_unauthenticated)
qed


lemma archive_route_handler_throws:
  assumes within: "hits env \<le> rateLimit_max" and valid: "archiveTaskSchema request"
    and i: "params request ''id'' = Some i"
    and calm: "\<forall>u. \<not> throws env (User_findUnique_id u)" "\<forall>q. meanwhile env q = id"
    and auth: "fst (authMiddleware request db) = Inr request1" "req_userId request1 = Some uid"
  shows "(throws env (Task_findUnique i) \<longrightarrow>
            reply_status (fst (archive_route env now request db)) = 500)
       \<and> (\<forall>task. \<not> throws env (Task_findUnique i)
            \<and> find (\<lambda>t. task_id t = i) (tasks db) = Some task \<and> userId task = uid
            \<and> throws env (Task_update i) \<longrightarrow>
            reply_status (fst (archive_route env now request db)) = 500)"
proof -
  from authMiddleware_outcome [of request db] auth
  have plain: "authMiddleware request db =
      (Inr (request\<lparr>req_userId := Some uid\<rparr>), sent (User_findUnique_id uid) db)"
    by auto
  then have under: "authMiddleware_under env request db =
      (Inr (request\<lparr>req_userId := Some uid\<rparr>), sent (User_findUnique_id uid) db)"
    by (simp add: authMiddleware_under_quiet [OF calm])
  note route = archive_route_authenticated [OF within valid i under, of now]
  have first: "reply_status (fst (archive_route env now request db)) = 500"
    if "throws env (Task_findUnique i)"
    using that by (simp add: route archiveTask_under_def awaited_def)
  have second: "reply_status (fst (archive_route env now request db)) = 500"
    if "\<not> throws env (Task_findUnique i)"
      and "find (\<lambda>t. task_id t = i) (tasks db) = Some task" and "userId task = uid"
      and "throws env (Task_update i)" for task
    using that calm(2)
    by (simp add: route archiveTask_under_def awaited_def returned_def findById_result)
  from first second show ?thesis
    by blast
qed

lemma authenticated_alice:
  "authMiddleware alice_archives_own seeded
     = (Inr (alice_archives_own\<lparr>req_userId := Some (user_id alice)\<rparr>),
        sent (User_findUnique_id (user_id alice)) seeded)"
proof -
  have "find (\<lambda>u. user_id u = user_id alice) (users seeded) = Some alice"
    by (simp add: seeded_simps)
  then show ?thesis
    using alice_id_UUID
    by (simp add: authMiddleware_def alice_archives_own_def prisma_user_findUnique_id_def
        Let_def alice_def)
qed

lemma authenticated_bob:
  "authMiddleware bob_archives_alices seeded
     = (Inr (bob_archives_alices\<lparr>req_userId := Some (user_id bob)\<rparr>),
        sent (User_findUnique_id (user_id bob)) seeded)"
proof -
  have "find (\<lambda>u. user_id u = user_id bob) (users seeded) = Some bob"
    by (simp add: seeded_rows)
  then show ?thesis
    using bob_id_UUID
    by (simp add: authMiddleware_def bob_archives_alices_def prisma_user_findUnique_id_def
        Let_def bob_def)
qed

lemma calm_simps:
  "hits calm \<le> rateLimit_max" "\<forall>q. \<not> throws calm q" "\<forall>q. meanwhile calm q = id"
  by (simp_all add: calm_def rateLimit_max_def)

lemma alice_archives_own_valid: "archiveTaskSchema alice_archives_own"
  by (simp add: archiveTaskSchema_def alice_archives_own_def task_a1_def hex_lower_def)

text \<open>
  Claim C8, as the code has it. A request to \<^verbatim>\<open>POST /tasks/:id/archive\<close> is answered
  with 429 exactly when the client is past the rate limiter's maximum. Within the limit
  it is answered with 400 when the path parameter is not an identifier; and, when no
  statement throws and no other request writes meanwhile, with 401 when the caller is
  not resolved, with 404 when no task has the identifier, with 403 when the task is owned
  by another user and with 200 otherwise, and with nothing else. A statement on which
  the store client throws is answered with 500, and 500 is answered only when a
  statement throws or another request has written. Of the rate limiter, the schema, the
  middleware and the service no other status comes; with 200 comes the task, its status
  \<open>ARCHIVED\<close>.
\<close>

theorem archive_route_outcomes:
  assumes "answer = fst (archive_route env now request db)"
    and "cred = (case headers request ''x-user-id'' of
                   None \<Rightarrow> query request ''userId''
                 | Some h \<Rightarrow> if h = [] then query request ''userId'' else Some h)"
  shows "(reply_status answer = 429 \<longleftrightarrow> rateLimit_max < hits env)
   \<and> (hits env \<le> rateLimit_max \<and> \<not> archiveTaskSchema request \<longrightarrow> reply_status answer = 400)
   \<and> reply_status answer \<in> {200, 400, 401, 403, 404, 429, 500}
   \<and> (reply_status answer = 200 \<longrightarrow>
        (\<exists>task. reply_body answer = success task \<and> status task = ARCHIVED))
   \<and> (reply_status answer = 500 \<longrightarrow> (\<exists>q. throws env q) \<or> (\<exists>q. meanwhile env q \<noteq> id))
   \<and> (hits env \<le> rateLimit_max \<and> (\<forall>q. \<not> throws env q) \<and> (\<forall>q. meanwhile env q = id) \<longrightarrow>
        reply_status answer \<in> {200, 400, 401, 403, 404}
      \<and> (archiveTaskSchema request \<and> (\<exists>e. fst (authMiddleware request db) = Inl e) \<longrightarrow>
           reply_status answer = 401)
      \<and> (\<forall>i request1 uid.
           archiveTaskSchema request \<and> params request ''id'' = Some i
           \<and> fst (authMiddleware request db) = Inr request1 \<and> req_userId request1 = Some uid \<longrightarrow>
             (i \<notin> task_id ` set (tasks db) \<longrightarrow> reply_status answer = 404)
           \<and> (\<forall>task. find (\<lambda>t. task_id t = i) (tasks db) = Some task \<and> userId task \<noteq> uid \<longrightarrow>
                reply_status answer = 403)
           \<and> (\<forall>task. find (\<lambda>t. task_id t = i) (tasks db) = Some task \<and> userId task = uid \<longrightarrow>
                reply_status answer = 200)))
   \<and> (\<forall>uid. hits env \<le> rateLimit_max \<and> archiveTaskSchema request \<and> cred = Some uid
        \<and> UUID_REGEX_test uid \<and> throws env (User_findUnique_id uid) \<longrightarrow>
        reply_status answer = 500)
   \<and> (\<forall>i request1 uid.
        hits env \<le> rateLimit_max \<and> archiveTaskSchema request \<and> params request ''id'' = Some i
        \<and> (\<forall>u. \<not> throws env (User_findUnique_id u)) \<and> (\<forall>q. meanwhile env q = id)
        \<and> fst (authMiddleware request db) = Inr request1 \<and> req_userId request1 = Some uid \<longrightarrow>
          (throws env (Task_findUnique i) \<longrightarrow> reply_status answer = 500)
        \<and> (\<forall>task. \<not> throws env (Task_findUnique i)
              \<and> find (\<lambda>t. task_id t = i) (tasks db) = Some task \<and> userId task = uid
              \<and> throws env (Task_update i) \<longrightarrow> reply_status answer = 500))"
proof -
  note answer = assms(1)
  have limited: "reply_status answer = 429 \<longleftrightarrow> rateLimit_max < hits env"
  proof (cases "rateLimit_max < hits env")
    case True
    then show ?thesis
      by (simp add: answer archive_route_over)
  next
    case False
    then have "hits env \<le> rateLimit_max"
      by simp
    from archive_route_within [OF this, of now request db] False show ?thesis
      by (auto simp: answer)
  qed
  have invalid: "hits env \<le> rateLimit_max \<and> \<not> archiveTaskSchema request \<longrightarrow>
      reply_status answer = 400"
    by (simp add: answer archive_route_invalid)
  have range: "reply_status answer \<in> {200, 400, 401, 403, 404, 429, 500}
   \<and> (reply_status answer = 200 \<longrightarrow>
        (\<exists>task. reply_body answer = success task \<and> status task = ARCHIVED))"
  proof (cases "rateLimit_max < hits env")
    case True
    then show ?thesis
      by (simp add: answer archive_route_over)
  next
    case False
    then have "hits env \<le> rateLimit_max"
      by simp
    from archive_route_within [OF this, of now request db] show ?thesis
      by (auto simp: answer)
  qed
  have quiet: "reply_status answer \<in> {200, 400, 401, 403, 404}
      \<and> (archiveTaskSchema request \<and> (\<exists>e. fst (authMiddleware request db) = Inl e) \<longrightarrow>
           reply_status answer = 401)
      \<and> (\<forall>i request1 uid.
           archiveTaskSchema request \<and> params request ''id'' = Some i
           \<and> fst (authMiddleware request db) = Inr request1 \<and> req_userId request1 = Some uid \<longrightarrow>
             (i \<notin> task_id ` set (tasks db) \<longrightarrow> reply_status answer = 404)
           \<and> (\<forall>task. find (\<lambda>t. task_id t = i) (tasks db) = Some task \<and> userId task \<noteq> uid \<longrightarrow>
                reply_status answer = 403)
           \<and> (\<forall>task. find (\<lambda>t. task_id t = i) (tasks db) = Some task \<and> userId task = uid \<longrightarrow>
                reply_status answer = 200))"
    if "hits env \<le> rateLimit_max" "\<forall>q. \<not> throws env q" "\<forall>q. meanwhile env q = id"
    unfolding answer using that by (rule archive_route_quiet)
  have store: "(\<exists>q. throws env q) \<or> (\<exists>q. meanwhile env q \<noteq> id)" if "reply_status answer = 500"
  proof (rule ccontr)
    assume "\<not> ((\<exists>q. throws env q) \<or> (\<exists>q. meanwhile env q \<noteq> id))"
    then have q: "\<forall>q. \<not> throws env q" "\<forall>q. meanwhile env q = id"
      by auto
    from limited that have "hits env \<le> rateLimit_max"
      by auto
    from quiet [OF this q] that show False
      by simp
  qed
  have lookup: "reply_status answer = 500"
    if "hits env \<le> rateLimit_max" "archiveTaskSchema request" "cred = Some uid"
      "UUID_REGEX_test uid" "throws env (User_findUnique_id uid)" for uid
    unfolding answer using that assms(2)
    by (intro archive_route_lookup_throws [where uid = uid]) simp_all
  have handler: "(throws env (Task_findUnique i) \<longrightarrow> reply_status answer = 500)
        \<and> (\<forall>task. \<not> throws env (Task_findUnique i)
              \<and> find (\<lambda>t. task_id t = i) (tasks db) = Some task \<and> userId task = uid
              \<and> throws env (Task_update i) \<longrightarrow> reply_status answer = 500)"
    if "hits env \<le> rateLimit_max" "archiveTaskSchema request" "params request ''id'' = Some i"
      "\<forall>u. \<not> throws env (User_findUnique_id u)" "\<forall>q. meanwhile env q = id"
      "fst (authMiddleware request db) = Inr request1" "req_userId request1 = Some uid"
    for i request1 uid
    unfolding answer using that by (rule archive_route_handler_throws)
  have c3: "reply_status answer \<in> {200, 400, 401, 403, 404, 429, 500}"
    using range by (rule conjunct1)
  have c4: "reply_status answer = 200 \<longrightarrow>
        (\<exists>task. reply_body answer = success task \<and> status task = ARCHIVED)"
    using range by (rule conjunct2)
  have c5: "reply_status answer = 500 \<longrightarrow> (\<exists>q. throws env q) \<or> (\<exists>q. meanwhile env q \<noteq> id)"
    using store by (rule impI)
  have c6: "hits env \<le> rateLimit_max \<and> (\<forall>q. \<not> throws env q) \<and> (\<forall>q. meanwhile env q = id) \<longrightarrow>
        reply_status answer \<in> {200, 400, 401, 403, 404}
      \<and> (archiveTaskSchema request \<and> (\<exists>e. fst (authMiddleware request db) = Inl e) \<longrightarrow>
           reply_status answer = 401)
      \<and> (\<forall>i request1 uid.
           archiveTaskSchema request \<and> params request ''id'' = Some i
           \<and> fst (authMiddleware request db) = Inr request1 \<and> req_userId request1 = Some uid \<longrightarrow>
             (i \<notin> task_id ` set (tasks db) \<longrightarrow> reply_status answer = 404)
           \<and> (\<forall>task. find (\<lambda>t. task_id t = i) (tasks db) = Some task \<and> userId task \<noteq> uid \<longrightarrow>
                reply_status answer = 403)
           \<and> (\<forall>task. find (\<lambda>t. task_id t = i) (tasks db) = Some task \<and> userId task = uid \<longrightarrow>
                reply_status answer = 200))"
  proof (intro impI, elim conjE)
    assume "hits env \<le> rateLimit_max" "\<forall>q. \<not> throws env q" "\<forall>q. meanwhile env q = id"
    then show "reply_status answer \<in> {200, 400, 401, 403, 404}
      \<and> (archiveTaskSchema request \<and> (\<exists>e. fst (authMiddleware request db) = Inl e) \<longrightarrow>
           reply_status answer = 401)
      \<and> (\<forall>i request1 uid.
           archiveTaskSchema request \<and> params request ''id'' = Some i
           \<and> fst (authMiddleware request db) = Inr request1 \<and> req_userId request1 = Some uid \<longrightarrow>
             (i \<notin> task_id ` set (tasks db) \<longrightarrow> reply_status answer = 404)
           \<and> (\<forall>task. find (\<lambda>t. task_id t = i) (tasks db) = Some task \<and> userId task \<noteq> uid \<longrightarrow>
                reply_status answer = 403)
           \<and> (\<forall>task. find (\<lambda>t. task_id t = i) (tasks db) = Some task \<and> userId task = uid \<longrightarrow>
                reply_status answer = 200))"
      by (rule quiet)
  qed
  have c7: "\<forall>uid. hits env \<le> rateLimit_max \<and> archiveTaskSchema request \<and> cred = Some uid
        \<and> UUID_REGEX_test uid \<and> throws env (User_findUnique_id uid) \<longrightarrow>
        reply_status answer = 500"
    using lookup by blast
  have c8: "\<forall>i request1 uid.
        hits env \<le> rateLimit_max \<and> archiveTaskSchema request \<and> params request ''id'' = Some i
        \<and> (\<forall>u. \<not> throws env (User_findUnique_id u)) \<and> (\<forall>q. meanwhile env q = id)
        \<and> fst (authMiddleware request db) = Inr request1 \<and> req_userId request1 = Some uid \<longrightarrow>
          (throws env (Task_findUnique i) \<longrightarrow> reply_status answer = 500)
        \<and> (\<forall>task. \<not> throws env (Task_findUnique i)
              \<and> find (\<lambda>t. task_id t = i) (tasks db) = Some task \<and> userId task = uid
              \<and> throws env (Task_update i) \<longrightarrow> reply_status answer = 500)"
  proof (intro allI impI, elim conjE)
    fix i request1 uid
    assume "hits env \<le> rateLimit_max" "archiveTaskSchema request" "params request ''id'' = Some i"
      "\<forall>u. \<not> throws env (User_findUnique_id u)" "\<forall>q. meanwhile env q = id"
      "fst (authMiddleware request db) = Inr request1" "req_userId request1 = Some uid"
    then show "(throws env (Task_findUnique i) \<longrightarrow> reply_status answer = 500)
        \<and> (\<forall>task. \<not> throws env (Task_findUnique i)
              \<and> find (\<lambda>t. task_id t = i) (tasks db) = Some task \<and> userId task = uid
              \<and> throws env (Task_update i) \<longrightarrow> reply_status answer = 500)"
      by (rule handler)
  qed
  show ?thesis
    apply (rule conjI [OF limited])
    apply (rule conjI [OF invalid])
    apply (rule conjI [OF c3])
    apply (rule conjI [OF c4])
    apply (rule conjI [OF c5])
    apply (rule conjI [OF c6])
    apply (rule conjI [OF c7])
    apply (rule c8)
    done
qed


theorem archive_route_outcomes_witness:
  "reply_status (fst (archive_route calm 3000 alice_archives_own seeded)) = 200
   \<and> (\<exists>task. reply_body (fst (archive_route calm 3000 alice_archives_own seeded)) = success task
         \<and> status task = ARCHIVED)
   \<and> reply_status (fst (archive_route calm 3000 anonymous_archives seeded)) = 401
   \<and> reply_status (fst (archive_route store_down 3000 alice_archives_own seeded)) = 500"
proof -
  have param: "params alice_archives_own ''id'' = Some (task_id task_a1)"
    by (simp add: alice_archives_own_def)
  have auth: "fst (authMiddleware alice_archives_own seeded)
      = Inr (alice_archives_own\<lparr>req_userId := Some (user_id alice)\<rparr>)"
    by (simp add: authenticated_alice)
  have caller: "req_userId (alice_archives_own\<lparr>req_userId := Some (user_id alice)\<rparr>)
      = Some (user_id alice)"
    by simp
  have found: "find (\<lambda>t. task_id t = task_id task_a1) (tasks seeded) = Some task_a1"
    by (simp add: seeded_rows)
  have owned: "userId task_a1 = user_id alice"
    by (simp add: task_a1_def)
  note own = archive_route_outcomes
    [where env = calm and now = 3000 and request = alice_archives_own and db = seeded,
      OF refl refl]
  from own [THEN conjunct2, THEN conjunct2, THEN conjunct2, THEN conjunct2, THEN conjunct2,
      THEN conjunct1]
    calm_simps alice_archives_own_valid param auth caller found owned
  have ok: "reply_status (fst (archive_route calm 3000 alice_archives_own seeded)) = 200"
    by blast
  with own [THEN conjunct2, THEN conjunct2, THEN conjunct2, THEN conjunct1]
  have archived: "\<exists>task. reply_body (fst (archive_route calm 3000 alice_archives_own seeded))
         = success task \<and> status task = ARCHIVED"
    by blast
  have valid': "archiveTaskSchema anonymous_archives"
    by (simp add: archiveTaskSchema_def anonymous_archives_def task_a1_def hex_lower_def)
  have anon: "fst (authMiddleware anonymous_archives seeded)
      = Inl (UnauthorizedError
          ''Missing user identifier. Provide x-user-id header or userId query parameter.'')"
    by (simp add: authMiddleware_def anonymous_archives_def)
  note none = archive_route_outcomes
    [where env = calm and now = 3000 and request = anonymous_archives and db = seeded,
      OF refl refl]
  from none [THEN conjunct2, THEN conjunct2, THEN conjunct2, THEN conjunct2, THEN conjunct2,
      THEN conjunct1] calm_simps valid' anon
  have unauth: "reply_status (fst (archive_route calm 3000 anonymous_archives seeded)) = 401"
    by blast
  have down: "hits store_down \<le> rateLimit_max" "throws store_down (User_findUnique_id (user_id alice))"
    by (simp_all add: store_down_def rateLimit_max_def)
  have cred: "(case headers alice_archives_own ''x-user-id'' of
                   None \<Rightarrow> query alice_archives_own ''userId''
                 | Some h \<Rightarrow> if h = [] then query alice_archives_own ''userId'' else Some h)
      = Some (user_id alice)"
    by (simp add: alice_archives_own_def alice_def)
  note lost = archive_route_outcomes
    [where env = store_down and now = 3000 and request = alice_archives_own and db = seeded,
      OF refl refl]
  from lost [THEN conjunct2, THEN conjunct2, THEN conjunct2, THEN conjunct2, THEN conjunct2,
      THEN conjunct2, THEN conjunct1] down alice_archives_own_valid cred alice_id_UUID
  have failed: "reply_status (fst (archive_route store_down 3000 alice_archives_own seeded)) = 500"
    by blast
  from ok archived unauth failed show ?thesis
    by simp
qed

text \<open>
  Claim C8 as stated lets the route fail with 401 and 404 only. Bob's request to archive
  Alice's task is answered with 403, a request whose path parameter is no identifier
  with 400, the request of a client past the rate limit with 429, and Alice's request
  with 500 when another request deletes her task between the lookup and the update.
\<close>

theorem archive_route_other_failures:
  "reply_status (fst (archive_route calm 3000 bob_archives_alices seeded)) = 403
   \<and> reply_status (fst (archive_route calm 3000 alice_archives_bad_id seeded)) = 400
   \<and> reply_status (fst (archive_route flooded 3000 alice_archives_own seeded)) = 429
   \<and> reply_status (fst (archive_route deleted_meanwhile 3000 alice_archives_own seeded)) = 500"
proof -
  have valid: "archiveTaskSchema bob_archives_alices"
    by (simp add: archiveTaskSchema_def bob_archives_alices_def task_a1_def hex_lower_def)
  have param: "params bob_archives_alices ''id'' = Some (task_id task_a1)"
    by (simp add: bob_archives_alices_def)
  have auth: "fst (authMiddleware bob_archives_alices seeded)
      = Inr (bob_archives_alices\<lparr>req_userId := Some (user_id bob)\<rparr>)"
    by (simp add: authenticated_bob)
  have caller: "req_userId (bob_archives_alices\<lparr>req_userId := Some (user_id bob)\<rparr>)
      = Some (user_id bob)"
    by simp
  have found: "find (\<lambda>t. task_id t = task_id task_a1) (tasks seeded) = Some task_a1"
    by (simp add: seeded_rows)
  have other: "userId task_a1 \<noteq> user_id bob"
    by (simp add: task_a1_def alice_def bob_def)
  from archive_route_quiet [OF calm_simps, of 3000 bob_archives_alices seeded]
    valid param auth caller found other
  have forbidden: "reply_status (fst (archive_route calm 3000 bob_archives_alices seeded)) = 403"
    by blast
  have "\<not> archiveTaskSchema alice_archives_bad_id"
    by (simp add: archiveTaskSchema_def alice_archives_bad_id_def)
  then have invalid:
    "reply_status (fst (archive_route calm 3000 alice_archives_bad_id seeded)) = 400"
    by (simp add: archive_route_invalid calm_simps)
  have "rateLimit_max < hits flooded"
    by (simp add: flooded_def rateLimit_max_def)
  then have limited:
    "reply_status (fst (archive_route flooded 3000 alice_archives_own seeded)) = 429"
    by (simp add: archive_route_over)
  have within: "hits deleted_meanwhile \<le> rateLimit_max"
    by (simp add: deleted_meanwhile_def rateLimit_max_def)
  have no_throw: "\<forall>u. \<not> throws deleted_meanwhile (User_findUnique_id u)"
    by (simp add: deleted_meanwhile_def)
  have under: "authMiddleware_under deleted_meanwhile alice_archives_own seeded
      = (Inr (alice_archives_own\<lparr>req_userId := Some (user_id alice)\<rparr>),
         sent (User_findUnique_id (user_id alice)) seeded)"
  proof -
    have "find (\<lambda>u. user_id u = user_id alice) (users seeded) = Some alice"
      by (simp add: seeded_simps)
    then show ?thesis
      using alice_id_UUID
      by (simp add: authMiddleware_under_def alice_archives_own_def awaited_def returned_def
          deleted_meanwhile_def prisma_user_findUnique_id_def Let_def alice_def)
  qed
  have param': "params alice_archives_own ''id'' = Some (task_id task_a1)"
    by (simp add: alice_archives_own_def)
  have gone: "fst (archiveTask_under deleted_meanwhile 3000 (task_id task_a1) (user_id alice)
                     (sent (User_findUnique_id (user_id alice)) seeded))
      = Inl (PrismaClientError RecordNotFound)"
    by (simp add: archiveTask_under_def awaited_def returned_def deleted_meanwhile_def
        findById_result TaskRepository_archive_def prisma_task_update_def valid_update_def
        Let_def seeded_rows)
  have vanished:
    "reply_status (fst (archive_route deleted_meanwhile 3000 alice_archives_own seeded)) = 500"
    using gone
    by (auto simp: archive_route_authenticated [OF within alice_archives_own_valid param' under]
        split: prod.splits)
  from forbidden invalid limited vanished show ?thesis
    by simp
qed


end
